theory Spec2Isabelle
  imports Complex_Main "HOL-Library.Word"
begin

section \<open>Data model\<close>

text \<open>
  Levels, \<^verbatim>\<open>debug\<close> and every other \<^verbatim>\<open>unsigned int\<close> of the source are 32-bit words:
  \<open>+\<close> and \<open>-\<close> wrap around, \<open>\<le>\<close> and \<open><\<close> compare the unsigned values.
\<close>

type_synonym level = "32 word"

datatype Cycle = v_cycle | w_cycle | f_cycle

text \<open>
  The exception of the three assertions of \<^verbatim>\<open>reinit\<close>. An operation that can fail
  returns the exception raised, if any, together with the object as it is when the operation
  ends or fails.
\<close>

datatype error = ExcLowerRangeType level level

subsection \<open>Vectors\<close>

text \<open>
  The vector type is the template parameter \<^verbatim>\<open>VectorType\<close>. It is a type \<open>'v\<close> of class
  \<open>real_normed_vector\<close>: \<^verbatim>\<open>= 0.\<close> is \<open>0\<close>, \<^verbatim>\<open>+=\<close> and \<^verbatim>\<open>-=\<close> are \<open>+\<close> and \<open>-\<close>.
  Arithmetic is exact (no rounding) and the shape of a vector is a matter of the type, so
  \<^verbatim>\<open>reinit\<close> from an exemplar yields the zero vector.
\<close>

definition sadd :: "real \<Rightarrow> real \<Rightarrow> 'v \<Rightarrow> 'v::real_normed_vector \<Rightarrow> 'v" where
  "sadd s a V this = s *\<^sub>R this + a *\<^sub>R V"

definition equ :: "real \<Rightarrow> 'v::real_normed_vector \<Rightarrow> 'v" where
  "equ a V = a *\<^sub>R V"

definition l2_norm :: "'v::real_normed_vector \<Rightarrow> real" where
  "l2_norm V = norm V"

definition reinit_vector :: "'v \<Rightarrow> 'v::real_normed_vector" where
  "reinit_vector V = 0"

subsection \<open>Level objects\<close>

text \<open>
  Modelled from the spec: \<^verbatim>\<open>MGLevelObject\<close> is declared outside the source file. The
  spec describes it as a container addressable by a contiguous integer range, holding one
  vector per level, which supports resizing its range; the recursive routines have no
  error path of their own. \<open>objects\<close> gives the vector at every index, \<open>min_level\<close> and
  \<open>max_level\<close> the addressable range, and \<open>resize\<close> discards the old vectors.
\<close>

record 'v MGLevelObject =
  min_level :: level
  max_level :: level
  objects :: "level \<Rightarrow> 'v"

definition resize :: "level \<Rightarrow> level \<Rightarrow> 'v MGLevelObject \<Rightarrow> ('v::real_normed_vector) MGLevelObject" where
  "resize new_minlevel new_maxlevel obj =
     \<lparr>min_level = new_minlevel, max_level = new_maxlevel, objects = (\<lambda>i. 0)\<rparr>"

definition put_at :: "'v MGLevelObject \<Rightarrow> level \<Rightarrow> 'v \<Rightarrow> 'v MGLevelObject" where
  "put_at obj i V = obj\<lparr>objects := (objects obj)(i := V)\<rparr>"

subsection \<open>Collaborators\<close>

text \<open>
  Modelled from the spec: the collaborator classes (\<^verbatim>\<open>MGMatrixBase\<close>,
  \<^verbatim>\<open>MGTransferBase\<close>, \<^verbatim>\<open>MGSmootherBase\<close>, \<^verbatim>\<open>MGCoarseGridBase\<close>) are abstract
  interfaces declared outside the source file. Each operation is a function of its level
  and vector arguments. An operation that overwrites its destination (\<^verbatim>\<open>vmult\<close>,
  \<^verbatim>\<open>Tvmult\<close>, \<^verbatim>\<open>prolongate\<close>) is a function of the source vector; one that works in
  place (\<^verbatim>\<open>vmult_add\<close>, \<^verbatim>\<open>restrict_and_add\<close>, \<^verbatim>\<open>smooth\<close>, the coarse solver) also
  takes the old destination and returns the new one.

  The coarse solver is an object with a state of its own, of a type \<open>'c\<close>: an invocation
  takes the state of the solver first and returns, with the new destination, the state in
  which it leaves the solver. What the solver does with its state is up to the solver; a
  solver that counts its invocations makes them observable.
\<close>

record 'v MGMatrixBase =
  vmult :: "level \<Rightarrow> 'v \<Rightarrow> 'v"
  vmult_add :: "level \<Rightarrow> 'v \<Rightarrow> 'v \<Rightarrow> 'v"
  Tvmult :: "level \<Rightarrow> 'v \<Rightarrow> 'v"
  get_minlevel :: level
  get_maxlevel :: level

record 'v MGTransferBase =
  restrict_and_add :: "level \<Rightarrow> 'v \<Rightarrow> 'v \<Rightarrow> 'v"
  prolongate :: "level \<Rightarrow> 'v \<Rightarrow> 'v"

type_synonym 'v MGSmootherBase = "level \<Rightarrow> 'v \<Rightarrow> 'v \<Rightarrow> 'v"

type_synonym ('v, 'c) MGCoarseGridBase = "'c \<Rightarrow> level \<Rightarrow> 'v \<Rightarrow> 'v \<Rightarrow> 'v \<times> 'c"

subsection \<open>Diagnostics and instrumentation\<close>

text \<open>
  A line written to \<^verbatim>\<open>deallog\<close> is the list of the items streamed into it.
\<close>

datatype logitem = Str string | Chr char | Lvl level | Num real

text \<open>
  \<open>calls\<close> is an instrumentation trace: the routines append an event when they invoke a
  smoother or the coarse solver and when they recurse. No statement reads it.
\<close>

datatype event =
    CoarseSolve level
  | PreSmooth level
  | PostSmooth level
  | VDescent level
  | FirstDescent level Cycle
  | SecondDescent level Cycle Cycle

subsection \<open>The engine\<close>

record ('v, 'c) Multigrid =
  cycle_type :: Cycle
  minlevel :: level
  maxlevel :: level
  defect :: "'v MGLevelObject"
  solution :: "'v MGLevelObject"
  t :: "'v MGLevelObject"
  defect2 :: "'v MGLevelObject"
  matrix :: "'v MGMatrixBase"
  coarse :: "('v, 'c) MGCoarseGridBase"
  coarse_state :: 'c
  transfer :: "'v MGTransferBase"
  pre_smooth :: "'v MGSmootherBase"
  post_smooth :: "'v MGSmootherBase"
  edge_out :: "'v MGMatrixBase option"
  edge_in :: "'v MGMatrixBase option"
  edge_down :: "'v MGMatrixBase option"
  edge_up :: "'v MGMatrixBase option"
  debug :: "32 word"
  deallog :: "logitem list list"
  calls :: "event list"

abbreviation defect_at :: "('v, 'c) Multigrid \<Rightarrow> level \<Rightarrow> 'v" where
  "defect_at mg i \<equiv> objects (defect mg) i"

abbreviation solution_at :: "('v, 'c) Multigrid \<Rightarrow> level \<Rightarrow> 'v" where
  "solution_at mg i \<equiv> objects (solution mg) i"

abbreviation t_at :: "('v, 'c) Multigrid \<Rightarrow> level \<Rightarrow> 'v" where
  "t_at mg i \<equiv> objects (t mg) i"

abbreviation defect2_at :: "('v, 'c) Multigrid \<Rightarrow> level \<Rightarrow> 'v" where
  "defect2_at mg i \<equiv> objects (defect2 mg) i"

text \<open>
  Statements. \<open>set_solution i e\<close> is the assignment \<^verbatim>\<open>solution[i] = e\<close>, the expression
  \<open>e\<close> read in the state before the assignment; likewise for the other level objects.
  \<open>when_debug n line\<close> is \<^verbatim>\<open>if (debug>n) deallog << ... << std::endl\<close>, \<open>if_set slot body\<close>
  is \<^verbatim>\<open>if (slot != 0) body\<close>, and \<open>block\<close> runs a list of statements in order.
  \<open>call_coarse i src\<close> is the invocation \<^verbatim>\<open>(*coarse)(i, solution[i], src)\<close>: the solver
  object \<open>coarse\<close> points to is run in its current state \<open>coarse_state\<close>, which it updates
  together with \<open>solution[i]\<close>.
\<close>

primrec block :: "('s \<Rightarrow> 's) list \<Rightarrow> 's \<Rightarrow> 's" where
  "block [] s = s"
| "block (stmt # stmts) s = block stmts (stmt s)"

definition set_defect :: "level \<Rightarrow> (('v, 'c) Multigrid \<Rightarrow> 'v) \<Rightarrow> ('v, 'c) Multigrid \<Rightarrow> ('v, 'c) Multigrid" where
  "set_defect i e mg = mg\<lparr>defect := put_at (defect mg) i (e mg)\<rparr>"

definition set_solution :: "level \<Rightarrow> (('v, 'c) Multigrid \<Rightarrow> 'v) \<Rightarrow> ('v, 'c) Multigrid \<Rightarrow> ('v, 'c) Multigrid" where
  "set_solution i e mg = mg\<lparr>solution := put_at (solution mg) i (e mg)\<rparr>"

definition set_t :: "level \<Rightarrow> (('v, 'c) Multigrid \<Rightarrow> 'v) \<Rightarrow> ('v, 'c) Multigrid \<Rightarrow> ('v, 'c) Multigrid" where
  "set_t i e mg = mg\<lparr>t := put_at (t mg) i (e mg)\<rparr>"

definition set_defect2 :: "level \<Rightarrow> (('v, 'c) Multigrid \<Rightarrow> 'v) \<Rightarrow> ('v, 'c) Multigrid \<Rightarrow> ('v, 'c) Multigrid" where
  "set_defect2 i e mg = mg\<lparr>defect2 := put_at (defect2 mg) i (e mg)\<rparr>"

definition call_coarse :: "level \<Rightarrow> (('v, 'c) Multigrid \<Rightarrow> 'v) \<Rightarrow> ('v, 'c) Multigrid \<Rightarrow> ('v, 'c) Multigrid" where
  "call_coarse i src mg =
     mg\<lparr>solution := put_at (solution mg) i
                    (fst (coarse mg (coarse_state mg) i (solution_at mg i) (src mg))),
        coarse_state := snd (coarse mg (coarse_state mg) i (solution_at mg i) (src mg))\<rparr>"

definition when_debug :: "32 word \<Rightarrow> (('v, 'c) Multigrid \<Rightarrow> logitem list) \<Rightarrow> ('v, 'c) Multigrid \<Rightarrow> ('v, 'c) Multigrid" where
  "when_debug n line mg = (if n < debug mg then mg\<lparr>deallog := deallog mg @ [line mg]\<rparr> else mg)"

definition if_set :: "(('v, 'c) Multigrid \<Rightarrow> 'a option) \<Rightarrow> ('a \<Rightarrow> ('v, 'c) Multigrid \<Rightarrow> ('v, 'c) Multigrid)
    \<Rightarrow> ('v, 'c) Multigrid \<Rightarrow> ('v, 'c) Multigrid" where
  "if_set slot body mg = (case slot mg of None \<Rightarrow> mg | Some e \<Rightarrow> body e mg)"

definition record_call :: "event \<Rightarrow> ('v, 'c) Multigrid \<Rightarrow> ('v, 'c) Multigrid" where
  "record_call ev mg = mg\<lparr>calls := calls mg @ [ev]\<rparr>"

section \<open>Range management and configuration\<close>

text \<open>
  The macro \<^verbatim>\<open>Assert (cond, exc)\<close> is defined outside the source file, and what it does
  depends on the build, which is a parameter here. A debug build (\<open>debug_build\<close> true)
  compiles the check in: a condition that fails raises the exception. A release build
  compiles the check out: nothing is evaluated and nothing is raised.
\<close>

definition Assert :: "bool \<Rightarrow> bool \<Rightarrow> error \<Rightarrow> error option" where
  "Assert debug_build cond exc = (if debug_build \<and> \<not> cond then Some exc else None)"

definition reinit :: "bool \<Rightarrow> level \<Rightarrow> level \<Rightarrow> ('v::real_normed_vector, 'c) Multigrid
    \<Rightarrow> error option \<times> ('v, 'c) Multigrid" where
  "reinit debug_build min_level' max_level' mg =
    (case Assert debug_build (get_minlevel (matrix mg) \<le> min_level')
            (ExcLowerRangeType min_level' (get_minlevel (matrix mg))) of
       Some exc \<Rightarrow> (Some exc, mg)
     | None \<Rightarrow>
    (case Assert debug_build (max_level' \<le> get_maxlevel (matrix mg))
            (ExcLowerRangeType (get_maxlevel (matrix mg)) max_level') of
       Some exc \<Rightarrow> (Some exc, mg)
     | None \<Rightarrow>
    (case Assert debug_build (min_level' \<le> max_level')
            (ExcLowerRangeType max_level' min_level') of
       Some exc \<Rightarrow> (Some exc, mg)
     | None \<Rightarrow>
         (None, block
            [(\<lambda>mg. mg\<lparr>minlevel := min_level'\<rparr>),
             (\<lambda>mg. mg\<lparr>maxlevel := max_level'\<rparr>),
             (\<lambda>mg. mg\<lparr>defect := resize (minlevel mg) (maxlevel mg) (defect mg)\<rparr>)] mg))))"

definition set_maxlevel :: "bool \<Rightarrow> level \<Rightarrow> ('v::real_normed_vector, 'c) Multigrid
    \<Rightarrow> error option \<times> ('v, 'c) Multigrid" where
  "set_maxlevel debug_build l mg = reinit debug_build (minlevel mg) l mg"

text \<open>The local constant \<^verbatim>\<open>new_minlevel\<close> of \<^verbatim>\<open>set_minlevel\<close>.\<close>

definition new_minlevel :: "level \<Rightarrow> bool \<Rightarrow> ('v, 'c) Multigrid \<Rightarrow> level" where
  "new_minlevel l relative mg = (if relative then maxlevel mg - l else l)"

definition set_minlevel :: "bool \<Rightarrow> level \<Rightarrow> bool \<Rightarrow> ('v::real_normed_vector, 'c) Multigrid
    \<Rightarrow> error option \<times> ('v, 'c) Multigrid" where
  "set_minlevel debug_build l relative mg =
     reinit debug_build (new_minlevel l relative mg) (maxlevel mg) mg"

definition set_cycle :: "Cycle \<Rightarrow> ('v, 'c) Multigrid \<Rightarrow> ('v, 'c) Multigrid" where
  "set_cycle c mg = mg\<lparr>cycle_type := c\<rparr>"

definition set_debug :: "32 word \<Rightarrow> ('v, 'c) Multigrid \<Rightarrow> ('v, 'c) Multigrid" where
  "set_debug d mg = mg\<lparr>debug := d\<rparr>"

definition set_edge_matrices :: "'v MGMatrixBase \<Rightarrow> 'v MGMatrixBase \<Rightarrow> ('v, 'c) Multigrid \<Rightarrow> ('v, 'c) Multigrid" where
  "set_edge_matrices down up mg = mg\<lparr>edge_out := Some down, edge_in := Some up\<rparr>"

definition set_edge_flux_matrices :: "'v MGMatrixBase \<Rightarrow> 'v MGMatrixBase \<Rightarrow> ('v, 'c) Multigrid \<Rightarrow> ('v, 'c) Multigrid" where
  "set_edge_flux_matrices down up mg = mg\<lparr>edge_down := Some down, edge_up := Some up\<rparr>"

section \<open>The V-cycle routine\<close>

text \<open>Lines 111 to 115: the diagnostics on entry.\<close>

definition level_v_step_entry :: "level \<Rightarrow> ('v::real_normed_vector, 'c) Multigrid \<Rightarrow> ('v, 'c) Multigrid" where
  "level_v_step_entry level =
     block
       [when_debug 0 (\<lambda>mg. [Str ''V-cycle entering level '', Lvl level]),
        when_debug 2 (\<lambda>mg. [Str ''V-cycle  Defect norm   '', Num (l2_norm (defect_at mg level))])]"

text \<open>Lines 119 to 122: the coarsest level.\<close>

definition level_v_step_coarse :: "level \<Rightarrow> ('v::real_normed_vector, 'c) Multigrid \<Rightarrow> ('v, 'c) Multigrid" where
  "level_v_step_coarse level =
     block
       [when_debug 0 (\<lambda>mg. [Str ''Coarse level           '', Lvl level]),
        record_call (CoarseSolve level),
        call_coarse level (\<lambda>mg. defect_at mg level)]"

text \<open>Lines 124 to 167: from the pre-smoothing to the zeroing of the coarser solution.\<close>

definition level_v_step_down :: "level \<Rightarrow> ('v::real_normed_vector, 'c) Multigrid \<Rightarrow> ('v, 'c) Multigrid" where
  "level_v_step_down level =
     block
       [when_debug 1 (\<lambda>mg. [Str ''Smoothing on     level '', Lvl level]),
        record_call (PreSmooth level),
        set_solution level (\<lambda>mg. pre_smooth mg level (solution_at mg level) (defect_at mg level)),
        when_debug 2 (\<lambda>mg. [Str ''Solution norm          '', Num (l2_norm (solution_at mg level))]),
        when_debug 1 (\<lambda>mg. [Str ''Residual on      level '', Lvl level]),
        set_t level (\<lambda>mg. vmult (matrix mg) level (solution_at mg level)),
        when_debug 2 (\<lambda>mg. [Str ''Residual norm          '', Num (l2_norm (t_at mg level))]),
        if_set edge_out (\<lambda>e. block
          [set_t level (\<lambda>mg. vmult_add e level (t_at mg level) (solution_at mg level)),
           when_debug 2 (\<lambda>mg. [Str ''Norm     t['', Lvl level, Str ''] '', Num (l2_norm (t_at mg level))])]),
        set_t level (\<lambda>mg. sadd (- 1) 1 (defect_at mg level) (t_at mg level)),
        if_set edge_down (\<lambda>e. block
          [set_t (level - 1) (\<lambda>mg. vmult e level (solution_at mg level)),
           set_defect (level - 1) (\<lambda>mg. defect_at mg (level - 1) - t_at mg (level - 1))]),
        set_defect (level - 1) (\<lambda>mg. restrict_and_add (transfer mg) level (defect_at mg (level - 1)) (t_at mg level)),
        set_solution (level - 1) (\<lambda>mg. 0)]"

text \<open>Lines 174 to 214: from the coarse grid correction to the post-smoothing.\<close>

definition level_v_step_up :: "level \<Rightarrow> ('v::real_normed_vector, 'c) Multigrid \<Rightarrow> ('v, 'c) Multigrid" where
  "level_v_step_up level =
     block
       [set_t level (\<lambda>mg. 0),
        set_t level (\<lambda>mg. prolongate (transfer mg) level (solution_at mg (level - 1))),
        when_debug 2 (\<lambda>mg. [Str ''Prolongate norm        '', Num (l2_norm (t_at mg level))]),
        set_solution level (\<lambda>mg. solution_at mg level + t_at mg level),
        if_set edge_in (\<lambda>e. block
          [set_t level (\<lambda>mg. Tvmult e level (solution_at mg level)),
           set_defect level (\<lambda>mg. defect_at mg level - t_at mg level)]),
        if_set edge_up (\<lambda>e. block
          [set_t level (\<lambda>mg. Tvmult e level (solution_at mg (level - 1))),
           set_defect level (\<lambda>mg. defect_at mg level - t_at mg level)]),
        when_debug 2 (\<lambda>mg. [Str ''V-cycle  Defect norm   '', Num (l2_norm (defect_at mg level))]),
        when_debug 1 (\<lambda>mg. [Str ''Smoothing on     level '', Lvl level]),
        record_call (PostSmooth level),
        set_solution level (\<lambda>mg. post_smooth mg level (solution_at mg level) (defect_at mg level)),
        when_debug 2 (\<lambda>mg. [Str ''Solution norm          '', Num (l2_norm (solution_at mg level))]),
        when_debug 1 (\<lambda>mg. [Str ''V-cycle leaving  level '', Lvl level])]"

text \<open>
  The routine recurses on \<open>level - 1\<close> until \<open>level = minlevel\<close>. In 32-bit arithmetic
  the distance \<open>level - minlevel\<close> decreases at every call, so the recursion ends for every
  argument.
\<close>

function level_v_step :: "level \<Rightarrow> ('v::real_normed_vector, 'c) Multigrid \<Rightarrow> ('v, 'c) Multigrid" where
  "level_v_step level mg =
    (let mg1 = level_v_step_entry level mg in
     if level = minlevel mg1 then level_v_step_coarse level mg1
     else let mg2 = record_call (VDescent level) (level_v_step_down level mg1);
              mg3 = level_v_step (level - 1) mg2
          in level_v_step_up level mg3)"
  by pat_completeness auto
termination
proof (relation "measure (\<lambda>(level, mg). unat (level - minlevel mg))")
  show "wf (measure (\<lambda>(level, mg::('v::real_normed_vector, 'c) Multigrid). unat (level - minlevel mg)))"
    by simp
next
  fix level :: level and mg x xa :: "('v::real_normed_vector, 'c) Multigrid"
  assume x: "x = level_v_step_entry level mg" and ne: "level \<noteq> minlevel x"
    and xa: "xa = record_call (VDescent level) (level_v_step_down level x)"
  have [simp]: "minlevel (when_debug n l y) = minlevel y" for n l and y :: "('v, 'c) Multigrid"
    by (simp add: when_debug_def)
  have [simp]: "minlevel (record_call ev y) = minlevel y" for ev and y :: "('v, 'c) Multigrid"
    by (simp add: record_call_def)
  have [simp]: "minlevel (set_solution i e y) = minlevel y"
    "minlevel (set_t i e y) = minlevel y" "minlevel (set_defect i e y) = minlevel y"
    for i e and y :: "('v, 'c) Multigrid"
    by (simp_all add: set_solution_def set_t_def set_defect_def)
  have m': "minlevel x = minlevel mg"
    unfolding x by (simp add: level_v_step_entry_def)
  have m: "minlevel xa = minlevel mg"
    unfolding xa by (simp add: level_v_step_down_def if_set_def m' split: option.split)
  from ne m' have "level - minlevel mg \<noteq> 0" by simp
  then have "unat (level - minlevel mg - 1) < unat (level - minlevel mg)"
    by (simp add: unat_minus_one unat_gt_0)
  then have "unat (level - 1 - minlevel mg) < unat (level - minlevel mg)"
    by (simp add: algebra_simps)
  with m show "((level - 1, xa), level, mg) \<in> measure (\<lambda>(level, mg). unat (level - minlevel mg))"
    by simp
qed

declare level_v_step.simps [simp del]

section \<open>The general routine\<close>

definition cychar :: "Cycle \<Rightarrow> char" where
  "cychar cycle = (case cycle of v_cycle \<Rightarrow> CHR ''V'' | f_cycle \<Rightarrow> CHR ''F'' | w_cycle \<Rightarrow> CHR ''W'')"

definition if_cond :: "(('v, 'c) Multigrid \<Rightarrow> bool) \<Rightarrow> (('v, 'c) Multigrid \<Rightarrow> ('v, 'c) Multigrid)
    \<Rightarrow> ('v, 'c) Multigrid \<Rightarrow> ('v, 'c) Multigrid" where
  "if_cond cond body mg = (if cond mg then body mg else mg)"

text \<open>Lines 224 to 260: the restriction of \<open>defect2\<close> and the local right-hand side.\<close>

definition level_step_entry :: "level \<Rightarrow> Cycle \<Rightarrow> ('v::real_normed_vector, 'c) Multigrid \<Rightarrow> ('v, 'c) Multigrid" where
  "level_step_entry level cycle =
     block
       [when_debug 0 (\<lambda>mg. [Chr (cychar cycle), Str ''-cycle entering level '', Lvl level]),
        if_cond (\<lambda>mg. minlevel mg < level) (block
          [set_defect2 (level - 1) (\<lambda>mg. 0),
           set_defect2 (level - 1) (\<lambda>mg. restrict_and_add (transfer mg) level (defect2_at mg (level - 1)) (defect2_at mg level))]),
        set_t level (\<lambda>mg. equ (- 1) (defect2_at mg level)),
        set_t level (\<lambda>mg. t_at mg level + defect_at mg level),
        when_debug 2 (\<lambda>mg. [Chr (cychar cycle), Str ''-cycle defect norm    '', Num (l2_norm (t_at mg level))])]"

text \<open>Lines 264 to 268: the coarsest level.\<close>

definition level_step_coarse :: "level \<Rightarrow> Cycle \<Rightarrow> ('v::real_normed_vector, 'c) Multigrid \<Rightarrow> ('v, 'c) Multigrid" where
  "level_step_coarse level cycle =
     block
       [when_debug 0 (\<lambda>mg. [Chr (cychar cycle), Str ''-cycle coarse level   '', Lvl level]),
        record_call (CoarseSolve level),
        call_coarse level (\<lambda>mg. t_at mg level)]"

text \<open>Lines 270 to 297: from the pre-smoothing to the zeroing of the coarser solution.\<close>

definition level_step_down :: "level \<Rightarrow> Cycle \<Rightarrow> ('v::real_normed_vector, 'c) Multigrid \<Rightarrow> ('v, 'c) Multigrid" where
  "level_step_down level cycle =
     block
       [when_debug 1 (\<lambda>mg. [Chr (cychar cycle), Str ''-cycle smoothing level '', Lvl level]),
        record_call (PreSmooth level),
        set_solution level (\<lambda>mg. pre_smooth mg level (solution_at mg level) (t_at mg level)),
        when_debug 2 (\<lambda>mg. [Chr (cychar cycle), Str ''-cycle solution norm    '', Num (l2_norm (solution_at mg level))]),
        when_debug 1 (\<lambda>mg. [Chr (cychar cycle), Str ''-cycle residual level   '', Lvl level]),
        set_t level (\<lambda>mg. vmult (matrix mg) level (solution_at mg level)),
        if_set edge_out (\<lambda>e.
          set_t level (\<lambda>mg. vmult_add e level (t_at mg level) (solution_at mg level))),
        if_set edge_down (\<lambda>e.
          set_defect2 (level - 1) (\<lambda>mg. vmult_add e level (defect2_at mg (level - 1)) (solution_at mg level))),
        set_defect2 (level - 1) (\<lambda>mg. restrict_and_add (transfer mg) level (defect2_at mg (level - 1)) (t_at mg level)),
        set_solution (level - 1) (\<lambda>mg. 0)]"

text \<open>Lines 321 to 347: from the coarse grid correction to the post-smoothing.\<close>

definition level_step_up :: "level \<Rightarrow> Cycle \<Rightarrow> ('v::real_normed_vector, 'c) Multigrid \<Rightarrow> ('v, 'c) Multigrid" where
  "level_step_up level cycle =
     block
       [set_t level (\<lambda>mg. 0),
        set_t level (\<lambda>mg. prolongate (transfer mg) level (solution_at mg (level - 1))),
        set_solution level (\<lambda>mg. solution_at mg level + t_at mg level),
        if_set edge_in (\<lambda>e.
          set_t level (\<lambda>mg. Tvmult e level (solution_at mg level))),
        if_set edge_up (\<lambda>e.
          set_t level (\<lambda>mg. Tvmult e level (solution_at mg (level - 1)))),
        set_t level (\<lambda>mg. sadd (- 1) (- 1) (defect2_at mg level) (t_at mg level)),
        set_t level (\<lambda>mg. t_at mg level + defect_at mg level),
        when_debug 2 (\<lambda>mg. [Chr (cychar cycle), Str ''-cycle  Defect norm    '', Num (l2_norm (t_at mg level))]),
        when_debug 1 (\<lambda>mg. [Chr (cychar cycle), Str ''-cycle smoothing level '', Lvl level]),
        record_call (PostSmooth level),
        set_solution level (\<lambda>mg. post_smooth mg level (solution_at mg level) (t_at mg level)),
        when_debug 1 (\<lambda>mg. [Chr (cychar cycle), Str ''-cycle leaving level   '', Lvl level])]"

text \<open>
  Lines 262 to 315: the base case, the first descent, which every cycle takes, and the
  second descent. The member \<open>minlevel\<close> is read again after the first descent has
  returned.
\<close>

function level_step :: "level \<Rightarrow> Cycle \<Rightarrow> ('v::real_normed_vector, 'c) Multigrid \<Rightarrow> ('v, 'c) Multigrid" where
  "level_step level cycle mg =
    (let mg1 = level_step_entry level cycle mg in
     if level = minlevel mg1 then level_step_coarse level cycle mg1
     else let mg2 = record_call (FirstDescent level cycle) (level_step_down level cycle mg1);
              mg3 = level_step (level - 1) cycle mg2;
              mg4 = (if minlevel mg3 + 1 < level then
                       (if cycle = w_cycle
                          then level_step (level - 1) cycle
                                 (record_call (SecondDescent level cycle cycle) mg3)
                        else if cycle = f_cycle
                          then level_step (level - 1) v_cycle
                                 (record_call (SecondDescent level cycle v_cycle) mg3)
                        else mg3)
                     else mg3)
          in level_step_up level cycle mg4)"
  by pat_completeness auto
termination
proof -
  have [simp]: "minlevel (when_debug n l y) = minlevel y" for n l and y :: "('v::real_normed_vector, 'c) Multigrid"
    by (simp add: when_debug_def)
  have [simp]: "minlevel (record_call ev y) = minlevel y" for ev and y :: "('v::real_normed_vector, 'c) Multigrid"
    by (simp add: record_call_def)
  have [simp]: "minlevel (set_solution i e y) = minlevel y"
    "minlevel (set_t i e y) = minlevel y" "minlevel (set_defect2 i e y) = minlevel y"
    "minlevel (call_coarse i e y) = minlevel y"
    for i e and y :: "('v::real_normed_vector, 'c) Multigrid"
    by (simp_all add: set_solution_def set_t_def set_defect2_def call_coarse_def)
  have entry [simp]: "minlevel (level_step_entry l c y) = minlevel y" for l c and y :: "('v::real_normed_vector, 'c) Multigrid"
    by (simp add: level_step_entry_def if_cond_def)
  have coarse [simp]: "minlevel (level_step_coarse l c y) = minlevel y" for l c and y :: "('v::real_normed_vector, 'c) Multigrid"
    by (simp add: level_step_coarse_def)
  have down [simp]: "minlevel (level_step_down l c y) = minlevel y" for l c and y :: "('v::real_normed_vector, 'c) Multigrid"
    by (simp add: level_step_down_def if_set_def split: option.split)
  have up [simp]: "minlevel (level_step_up l c y) = minlevel y" for l c and y :: "('v::real_normed_vector, 'c) Multigrid"
    by (simp add: level_step_up_def if_set_def split: option.split)
  have dom: "minlevel (level_step l c y) = minlevel y"
    if "level_step_dom (l, c, y)" for l c and y :: "('v::real_normed_vector, 'c) Multigrid"
    using that
  proof (induct rule: level_step.pinduct)
    case (1 level cycle mg)
    define x where "x = level_step_entry level cycle mg"
    define xa where "xa = record_call (FirstDescent level cycle) (level_step_down level cycle x)"
    define xb where "xb = level_step (level - 1) cycle xa"
    have eq: "level_step level cycle mg =
        (if level = minlevel x then level_step_coarse level cycle x
         else level_step_up level cycle
                (if minlevel xb + 1 < level then
                   (if cycle = w_cycle
                      then level_step (level - 1) cycle
                             (record_call (SecondDescent level cycle cycle) xb)
                    else if cycle = f_cycle
                      then level_step (level - 1) v_cycle
                             (record_call (SecondDescent level cycle v_cycle) xb)
                    else xb)
                 else xb))"
      unfolding x_def xa_def xb_def
      by (subst level_step.psimps [OF 1(1)]) (simp only: Let_def)
    have mx: "minlevel x = minlevel mg"
      by (simp add: x_def)
    show ?case
    proof (cases "level = minlevel mg")
      case True
      then show ?thesis
        unfolding eq by (simp add: mx)
    next
      case False
      then have ne: "level \<noteq> minlevel x"
        by (simp add: mx)
      have b: "minlevel xb = minlevel mg"
        using 1(2) [OF x_def ne xa_def] by (simp add: xb_def xa_def x_def)
      have c: "minlevel (level_step (level - 1) cycle
                 (record_call (SecondDescent level cycle cycle) xb)) = minlevel mg"
        if "minlevel mg + 1 < level" "cycle = w_cycle"
        using 1(3) [OF x_def ne xa_def xb_def] that b by simp
      have d: "minlevel (level_step (level - 1) v_cycle
                 (record_call (SecondDescent level cycle v_cycle) xb)) = minlevel mg"
        if "minlevel mg + 1 < level" "cycle \<noteq> w_cycle" "cycle = f_cycle"
        using 1(4) [OF x_def ne xa_def xb_def] that b by simp
      from False b c d show ?thesis
        unfolding eq by (simp add: mx)
    qed
  qed
  have dec: "unat (l - 1 - m) < unat (l - m)" if "l \<noteq> m" for l m :: level
  proof -
    from that have "l - m \<noteq> 0" by simp
    then have "unat (l - m - 1) < unat (l - m)"
      by (simp add: unat_minus_one unat_gt_0)
    then show ?thesis by (simp add: algebra_simps)
  qed
  show ?thesis
  proof (relation "measure (\<lambda>(level, cycle, mg). unat (level - minlevel mg))")
    show "wf (measure (\<lambda>(level, cycle :: Cycle, mg :: ('v::real_normed_vector, 'c) Multigrid). unat (level - minlevel mg)))"
      by simp
  next
    fix level cycle and mg x xa :: "('v::real_normed_vector, 'c) Multigrid"
    assume "x = level_step_entry level cycle mg" "level \<noteq> minlevel x"
      "xa = record_call (FirstDescent level cycle) (level_step_down level cycle x)"
    then show "((level - 1, cycle, xa), level, cycle, mg)
        \<in> measure (\<lambda>(level, cycle, mg). unat (level - minlevel mg))"
      by (simp add: dec)
  next
    fix level cycle and mg x xa xb :: "('v::real_normed_vector, 'c) Multigrid"
    assume "x = level_step_entry level cycle mg" "level \<noteq> minlevel x"
      "xa = record_call (FirstDescent level cycle) (level_step_down level cycle x)"
      "xb = level_step (level - 1) cycle xa" "level_step_dom (level - 1, cycle, xa)"
    then show "((level - 1, cycle, record_call (SecondDescent level cycle cycle) xb), level, cycle, mg)
        \<in> measure (\<lambda>(level, cycle, mg). unat (level - minlevel mg))"
      by (simp add: dec dom)
  next
    fix level cycle and mg x xa xb :: "('v::real_normed_vector, 'c) Multigrid"
    assume "x = level_step_entry level cycle mg" "level \<noteq> minlevel x"
      "xa = record_call (FirstDescent level cycle) (level_step_down level cycle x)"
      "xb = level_step (level - 1) cycle xa" "level_step_dom (level - 1, cycle, xa)"
    then show "((level - 1, v_cycle, record_call (SecondDescent level cycle v_cycle) xb), level, cycle, mg)
        \<in> measure (\<lambda>(level, cycle, mg). unat (level - minlevel mg))"
      by (simp add: dec dom)
  qed
qed


declare level_step.simps [simp del]

section \<open>The entry points\<close>

text \<open>Lines 359 to 362 (and 387 to 388 in \<^verbatim>\<open>vcycle\<close>): the level objects are resized.\<close>

definition cycle_resize :: "('v::real_normed_vector, 'c) Multigrid \<Rightarrow> ('v, 'c) Multigrid" where
  "cycle_resize =
     block
       [(\<lambda>mg. mg\<lparr>solution := resize (minlevel mg) (maxlevel mg) (solution mg)\<rparr>),
        (\<lambda>mg. mg\<lparr>t := resize (minlevel mg) (maxlevel mg) (t mg)\<rparr>),
        if_cond (\<lambda>mg. cycle_type mg \<noteq> v_cycle)
          (\<lambda>mg. mg\<lparr>defect2 := resize (minlevel mg) (maxlevel mg) (defect2 mg)\<rparr>)]"

definition vcycle_resize :: "('v::real_normed_vector, 'c) Multigrid \<Rightarrow> ('v, 'c) Multigrid" where
  "vcycle_resize =
     block
       [(\<lambda>mg. mg\<lparr>solution := resize (minlevel mg) (maxlevel mg) (solution mg)\<rparr>),
        (\<lambda>mg. mg\<lparr>t := resize (minlevel mg) (maxlevel mg) (t mg)\<rparr>)]"

text \<open>Lines 366 to 369 and 392 to 393: the bodies of the two loops.\<close>

definition cycle_loop_body :: "level \<Rightarrow> ('v::real_normed_vector, 'c) Multigrid \<Rightarrow> ('v, 'c) Multigrid" where
  "cycle_loop_body level =
     block
       [set_solution level (\<lambda>mg. reinit_vector (defect_at mg level)),
        set_t level (\<lambda>mg. reinit_vector (defect_at mg level)),
        if_cond (\<lambda>mg. cycle_type mg \<noteq> v_cycle)
          (set_defect2 level (\<lambda>mg. reinit_vector (defect_at mg level)))]"

definition vcycle_loop_body :: "level \<Rightarrow> ('v::real_normed_vector, 'c) Multigrid \<Rightarrow> ('v, 'c) Multigrid" where
  "vcycle_loop_body level =
     block
       [set_solution level (\<lambda>mg. reinit_vector (defect_at mg level)),
        set_t level (\<lambda>mg. reinit_vector (defect_at mg level))]"

text \<open>
  \<^verbatim>\<open>for (unsigned int level=minlevel; level<=maxlevel; ++level)\<close>: the counter wraps
  around, so the loop does not end when \<open>maxlevel\<close> is the largest 32-bit value. Not
  returning is the value \<open>None\<close>.
\<close>

partial_function (option) cycle_loop :: "level \<Rightarrow> ('v::real_normed_vector, 'c) Multigrid \<Rightarrow> ('v, 'c) Multigrid option" where
  "cycle_loop level mg =
    (if level \<le> maxlevel mg then cycle_loop (level + 1) (cycle_loop_body level mg) else Some mg)"

partial_function (option) vcycle_loop :: "level \<Rightarrow> ('v::real_normed_vector, 'c) Multigrid \<Rightarrow> ('v, 'c) Multigrid option" where
  "vcycle_loop level mg =
    (if level \<le> maxlevel mg then vcycle_loop (level + 1) (vcycle_loop_body level mg) else Some mg)"

definition cycle :: "('v::real_normed_vector, 'c) Multigrid \<Rightarrow> ('v, 'c) Multigrid option" where
  "cycle mg =
    (let mg1 = cycle_resize mg in
     case cycle_loop (minlevel mg1) mg1 of
       None \<Rightarrow> None
     | Some mg2 \<Rightarrow>
         Some (if cycle_type mg2 = v_cycle then level_v_step (maxlevel mg2) mg2
               else level_step (maxlevel mg2) (cycle_type mg2) mg2))"

definition vcycle :: "('v::real_normed_vector, 'c) Multigrid \<Rightarrow> ('v, 'c) Multigrid option" where
  "vcycle mg =
    (let mg1 = vcycle_resize mg in
     case vcycle_loop (minlevel mg1) mg1 of
       None \<Rightarrow> None
     | Some mg2 \<Rightarrow> Some (level_v_step (maxlevel mg2) mg2))"

section \<open>Auxiliary definitions\<close>

text \<open>
  The state in which the second descent of \<^verbatim>\<open>level_step\<close> starts: the first descent
  has returned.
\<close>

abbreviation first_descent :: "level \<Rightarrow> Cycle \<Rightarrow> ('v::real_normed_vector, 'c) Multigrid \<Rightarrow> ('v, 'c) Multigrid" where
  "first_descent level c mg \<equiv>
     level_step (level - 1) c
       (record_call (FirstDescent level c)
         (level_step_down level c (level_step_entry level c mg)))"

text \<open>The members that the recursive routines only read.\<close>

definition config_of where
  "config_of mg =
     (cycle_type mg, minlevel mg, maxlevel mg, matrix mg, coarse mg, transfer mg,
      pre_smooth mg, post_smooth mg, edge_out mg, edge_in mg, edge_down mg, edge_up mg,
      debug mg)"

text \<open>
  A coarse solver counts its invocations when its state is a number that every invocation,
  whatever its arguments, increases by one.
\<close>

definition counts_invocations :: "('v, nat) MGCoarseGridBase \<Rightarrow> bool" where
  "counts_invocations solver = (\<forall>n l dst src. snd (solver n l dst src) = Suc n)"



text \<open>
  The numerical state of the engine is its four level objects. \<open>numeric\<close> forgets the
  diagnostics: the verbosity and what has been written to \<^verbatim>\<open>deallog\<close>. A statement
  commutes with it when its effect on everything else does not depend on them.
\<close>

definition stores where
  "stores mg = (solution mg, defect mg, t mg, defect2 mg)"

definition numeric :: "('v, 'c) Multigrid \<Rightarrow> ('v, 'c) Multigrid" where
  "numeric mg = mg\<lparr>debug := 0, deallog := []\<rparr>"

definition commutes :: "(('v, 'c) Multigrid \<Rightarrow> ('v, 'c) Multigrid) \<Rightarrow> bool" where
  "commutes stmt = (\<forall>mg. numeric (stmt mg) = stmt (numeric mg))"

text \<open>
  The zero-defect property: \<open>zero_on lo hi obj\<close> says that every vector of a level object
  in the range \<open>[lo, hi]\<close> is zero; \<open>zero_preserving\<close> collects what the property asks of
  the collaborators, on the arguments the routines pass them: the level operator, the
  transfer and the edge operators that are set map zero to zero, and the smoothers and the
  coarse solver, given a zero solution and a zero right-hand side, return zero.
\<close>

definition zero_on :: "level \<Rightarrow> level \<Rightarrow> ('v::real_normed_vector) MGLevelObject \<Rightarrow> bool" where
  "zero_on lo hi obj = (\<forall>l. lo \<le> l \<and> l \<le> hi \<longrightarrow> objects obj l = 0)"

definition maps_zero_to_zero :: "('v::real_normed_vector) MGMatrixBase option \<Rightarrow> bool" where
  "maps_zero_to_zero slot =
     (case slot of None \<Rightarrow> True
      | Some e \<Rightarrow> (\<forall>l. vmult e l 0 = 0) \<and> (\<forall>l. vmult_add e l 0 0 = 0) \<and> (\<forall>l. Tvmult e l 0 = 0))"

definition zero_preserving :: "('v::real_normed_vector, 'c) Multigrid \<Rightarrow> bool" where
  "zero_preserving mg =
     ((\<forall>l. vmult (matrix mg) l 0 = 0) \<and>
      (\<forall>l. restrict_and_add (transfer mg) l 0 0 = 0) \<and>
      (\<forall>l. prolongate (transfer mg) l 0 = 0) \<and>
      maps_zero_to_zero (edge_out mg) \<and> maps_zero_to_zero (edge_in mg) \<and>
      maps_zero_to_zero (edge_down mg) \<and> maps_zero_to_zero (edge_up mg) \<and>
      (\<forall>l. pre_smooth mg l 0 0 = 0) \<and> (\<forall>l. post_smooth mg l 0 0 = 0) \<and>
      (\<forall>n l. fst (coarse mg n l 0 0) = 0))"

definition zero_v :: "level \<Rightarrow> level \<Rightarrow> ('v::real_normed_vector, 'c) Multigrid \<Rightarrow> bool" where
  "zero_v lo hi mg =
     (zero_on lo hi (defect mg) \<and> zero_on lo hi (solution mg) \<and> zero_on lo hi (t mg))"

definition zero_all :: "level \<Rightarrow> level \<Rightarrow> ('v::real_normed_vector, 'c) Multigrid \<Rightarrow> bool" where
  "zero_all lo hi mg = (zero_v lo hi mg \<and> zero_on lo hi (defect2 mg))"

section \<open>Scenarios\<close>

text \<open>
  The end-to-end scalar scenario of the specification: two levels, vectors are real numbers,
  the level operators multiply by \<open>1\<close> on level \<open>0\<close> and by \<open>2\<close> on level \<open>1\<close>, the coarse
  solver applies the inverse of the level-0 operator and counts its invocations,
  restriction and prolongation are the
  identity, the smoothers leave the solution as it is, no edge operator is set, and the
  defect is \<open>4\<close> on level \<open>1\<close> and \<open>0\<close> on level \<open>0\<close>.
\<close>

definition scalar_matrix :: "real MGMatrixBase" where
  "scalar_matrix =
     \<lparr>vmult = (\<lambda>level src. (if level = 0 then 1 else 2) * src),
      vmult_add = (\<lambda>level dst src. dst + (if level = 0 then 1 else 2) * src),
      Tvmult = (\<lambda>level src. (if level = 0 then 1 else 2) * src),
      get_minlevel = 0, get_maxlevel = 1\<rparr>"

definition scalar_transfer :: "real MGTransferBase" where
  "scalar_transfer =
     \<lparr>restrict_and_add = (\<lambda>level dst src. dst + 1 * src),
      prolongate = (\<lambda>level src. 1 * src)\<rparr>"

definition scalar_scenario :: "(real, nat) Multigrid" where
  "scalar_scenario =
     \<lparr>cycle_type = v_cycle, minlevel = 0, maxlevel = 1,
      defect = \<lparr>min_level = 0, max_level = 1, objects = (\<lambda>i. if i = 1 then 4 else 0)\<rparr>,
      solution = \<lparr>min_level = 0, max_level = 0, objects = (\<lambda>i. 0)\<rparr>,
      t = \<lparr>min_level = 0, max_level = 0, objects = (\<lambda>i. 0)\<rparr>,
      defect2 = \<lparr>min_level = 0, max_level = 0, objects = (\<lambda>i. 0)\<rparr>,
      matrix = scalar_matrix,
      coarse = (\<lambda>n level dst src. (inverse 1 * src, Suc n)),
      coarse_state = 0,
      transfer = scalar_transfer,
      pre_smooth = (\<lambda>level dst src. dst),
      post_smooth = (\<lambda>level dst src. dst),
      edge_out = None, edge_in = None, edge_down = None, edge_up = None,
      debug = 0, deallog = [], calls = []\<rparr>"

text \<open>
  Two more states of the scalar scenario. \<open>scalar_prepared\<close> is the scalar scenario with
  its solution, t and defect2 objects sized and zeroed as \<^verbatim>\<open>cycle()\<close> does before it
  starts a recursive routine. \<open>edge_scenario\<close> is the scalar scenario with cycle type W, a
  pre-smoother that adds the right-hand side to the solution, and all four edge operators
  set through the two setters, \<open>scalar_edge k\<close> multiplying by \<open>k\<close>.
\<close>

definition scalar_prepared :: "(real, nat) Multigrid" where
  "scalar_prepared =
     scalar_scenario
       \<lparr>solution := resize 0 1 (solution scalar_scenario),
        t := resize 0 1 (t scalar_scenario),
        defect2 := resize 0 1 (defect2 scalar_scenario)\<rparr>"

definition scalar_edge :: "real \<Rightarrow> real MGMatrixBase" where
  "scalar_edge k =
     \<lparr>vmult = (\<lambda>level src. k * src),
      vmult_add = (\<lambda>level dst src. dst + k * src),
      Tvmult = (\<lambda>level src. k * src),
      get_minlevel = 0, get_maxlevel = 1\<rparr>"

definition edge_scenario :: "(real, nat) Multigrid" where
  "edge_scenario =
     set_edge_flux_matrices (scalar_edge 5) (scalar_edge 100)
       (set_edge_matrices (scalar_edge 3) (scalar_edge 10)
         (set_cycle w_cycle (scalar_scenario\<lparr>pre_smooth := (\<lambda>level dst src. dst + src)\<rparr>)))"

text \<open>
  The scalar scenario on three levels: the operator collection and the defect object range
  over the levels \<open>0\<close> to \<open>2\<close>, and the defect is \<open>4\<close> on the finest level.
\<close>

definition three_level_scenario :: "(real, nat) Multigrid" where
  "three_level_scenario =
     scalar_scenario
       \<lparr>maxlevel := 2,
        defect := \<lparr>min_level = 0, max_level = 2, objects = (\<lambda>i. if i = 2 then 4 else 0)\<rparr>,
        matrix := scalar_matrix\<lparr>get_maxlevel := 2\<rparr>\<rparr>"

section \<open>Auxiliary lemmas\<close>

subsection \<open>Statements and the members they leave alone\<close>

lemma when_debug_fields [simp]:
  "cycle_type (when_debug n l mg) = cycle_type mg"
  "minlevel (when_debug n l mg) = minlevel mg"
  "maxlevel (when_debug n l mg) = maxlevel mg"
  "defect (when_debug n l mg) = defect mg"
  "solution (when_debug n l mg) = solution mg"
  "t (when_debug n l mg) = t mg"
  "defect2 (when_debug n l mg) = defect2 mg"
  "matrix (when_debug n l mg) = matrix mg"
  "coarse (when_debug n l mg) = coarse mg"
  "coarse_state (when_debug n l mg) = coarse_state mg"
  "transfer (when_debug n l mg) = transfer mg"
  "pre_smooth (when_debug n l mg) = pre_smooth mg"
  "post_smooth (when_debug n l mg) = post_smooth mg"
  "edge_out (when_debug n l mg) = edge_out mg"
  "edge_in (when_debug n l mg) = edge_in mg"
  "edge_down (when_debug n l mg) = edge_down mg"
  "edge_up (when_debug n l mg) = edge_up mg"
  "debug (when_debug n l mg) = debug mg"
  "calls (when_debug n l mg) = calls mg"
  by (simp_all add: when_debug_def)

lemmas stmt_defs = set_defect_def set_solution_def set_t_def set_defect2_def call_coarse_def
  record_call_def if_set_def if_cond_def put_at_def

lemmas v_block_defs = level_v_step_entry_def level_v_step_coarse_def level_v_step_down_def
  level_v_step_up_def

lemmas block_defs = level_step_entry_def level_step_coarse_def level_step_down_def
  level_step_up_def

lemmas word_cmp = word_le_nat_alt word_less_nat_alt

lemma config_of_record_call [simp]: "config_of (record_call ev mg) = config_of mg"
  by (simp add: config_of_def record_call_def)

lemma config_of_v_blocks [simp]:
  "config_of (level_v_step_entry level mg) = config_of mg"
  "config_of (level_v_step_coarse level mg) = config_of mg"
  "config_of (level_v_step_down level mg) = config_of mg"
  "config_of (level_v_step_up level mg) = config_of mg"
  by (simp_all add: config_of_def v_block_defs stmt_defs split: option.split)

lemma config_of_blocks [simp]:
  "config_of (level_step_entry level c mg) = config_of mg"
  "config_of (level_step_coarse level c mg) = config_of mg"
  "config_of (level_step_down level c mg) = config_of mg"
  "config_of (level_step_up level c mg) = config_of mg"
  by (simp_all add: config_of_def block_defs stmt_defs split: option.split)

lemma config_of_fields:
  assumes "config_of a = config_of b"
  shows "cycle_type a = cycle_type b" "minlevel a = minlevel b" "maxlevel a = maxlevel b"
    "matrix a = matrix b" "coarse a = coarse b" "transfer a = transfer b"
    "pre_smooth a = pre_smooth b" "post_smooth a = post_smooth b"
    "edge_out a = edge_out b" "edge_in a = edge_in b" "edge_down a = edge_down b"
    "edge_up a = edge_up b" "debug a = debug b"
  using assms by (simp_all add: config_of_def)

lemmas record_call_fields [simp] = config_of_fields [OF config_of_record_call]

lemmas v_blocks_fields [simp] =
  config_of_fields [OF config_of_v_blocks(1)] config_of_fields [OF config_of_v_blocks(2)]
  config_of_fields [OF config_of_v_blocks(3)] config_of_fields [OF config_of_v_blocks(4)]

lemmas blocks_fields [simp] =
  config_of_fields [OF config_of_blocks(1)] config_of_fields [OF config_of_blocks(2)]
  config_of_fields [OF config_of_blocks(3)] config_of_fields [OF config_of_blocks(4)]

lemma level_v_step_base:
  "level = minlevel mg \<Longrightarrow>
   level_v_step level mg = level_v_step_coarse level (level_v_step_entry level mg)"
  by (subst level_v_step.simps)
    (simp add: Let_def)

lemma level_v_step_rec:
  "level \<noteq> minlevel mg \<Longrightarrow>
   level_v_step level mg =
     level_v_step_up level (level_v_step (level - 1)
       (record_call (VDescent level) (level_v_step_down level (level_v_step_entry level mg))))"
  by (subst level_v_step.simps)
    (simp add: Let_def)

lemma level_v_step_induct [case_names base step]:
  assumes "\<And>level mg. level = minlevel mg \<Longrightarrow> P level mg"
    and "\<And>level mg. level \<noteq> minlevel mg \<Longrightarrow>
           P (level - 1) (record_call (VDescent level)
              (level_v_step_down level (level_v_step_entry level mg))) \<Longrightarrow> P level mg"
  shows "P level mg"
proof (induct level mg rule: level_v_step.induct)
  case (1 level mg)
  have m: "minlevel (level_v_step_entry level mg) = minlevel mg"
    by simp
  show ?case
  proof (cases "level = minlevel mg")
    case True
    then show ?thesis by (rule assms(1))
  next
    case False
    with 1 [OF refl _ refl] m show ?thesis
      by (simp add: assms(2))
  qed
qed

lemma config_of_level_v_step [simp]: "config_of (level_v_step level mg) = config_of mg"
  by (induct level mg rule: level_v_step_induct)
    (simp_all add: level_v_step_base level_v_step_rec)

lemmas level_v_step_fields [simp] = config_of_fields [OF config_of_level_v_step]

lemma level_step_unfold:
  "level_step level c mg =
    (if level = minlevel mg then level_step_coarse level c (level_step_entry level c mg)
     else level_step_up level c
       (if minlevel (first_descent level c mg) + 1 < level then
          (if c = w_cycle
             then level_step (level - 1) c
                    (record_call (SecondDescent level c c) (first_descent level c mg))
           else if c = f_cycle
             then level_step (level - 1) v_cycle
                    (record_call (SecondDescent level c v_cycle) (first_descent level c mg))
           else first_descent level c mg)
        else first_descent level c mg))"
  by (subst level_step.simps)
    (simp add: Let_def)

lemma config_of_level_step [simp]: "config_of (level_step level c mg) = config_of mg"
proof (induct level c mg rule: level_step.induct)
  case (1 level c mg)
  note ih = 1 [OF refl _ refl]
  have m: "minlevel (level_step_entry level c mg) = minlevel mg"
    by simp
  show ?case
  proof (cases "level = minlevel mg")
    case True
    then show ?thesis by (subst level_step_unfold) simp
  next
    case False
    with m have ne: "level \<noteq> minlevel (level_step_entry level c mg)"
      by simp
    have a: "config_of (first_descent level c mg) = config_of mg"
      using ih(1) [OF ne] by simp
    have b: "config_of (level_step (level - 1) c
               (record_call (SecondDescent level c c) (first_descent level c mg))) = config_of mg"
      if "minlevel (first_descent level c mg) + 1 < level" "c = w_cycle"
      using ih(2) [OF ne refl] that a by simp
    have d: "config_of (level_step (level - 1) v_cycle
               (record_call (SecondDescent level c v_cycle) (first_descent level c mg))) = config_of mg"
      if "minlevel (first_descent level c mg) + 1 < level" "c \<noteq> w_cycle" "c = f_cycle"
      using ih(3) [OF ne refl] that a by simp
    from False a b d show ?thesis
      by (subst level_step_unfold) simp
  qed
qed

lemmas level_step_fields [simp] = config_of_fields [OF config_of_level_step]

lemma level_step_base:
  "level = minlevel mg \<Longrightarrow>
   level_step level c mg = level_step_coarse level c (level_step_entry level c mg)"
  by (subst level_step_unfold) simp

lemma level_step_rec:
  "level \<noteq> minlevel mg \<Longrightarrow>
   level_step level c mg =
     level_step_up level c
       (if minlevel mg + 1 < level then
          (if c = w_cycle
             then level_step (level - 1) c
                    (record_call (SecondDescent level c c) (first_descent level c mg))
           else if c = f_cycle
             then level_step (level - 1) v_cycle
                    (record_call (SecondDescent level c v_cycle) (first_descent level c mg))
           else first_descent level c mg)
        else first_descent level c mg)"
  by (subst level_step_unfold) simp

lemma level_step_induct [case_names base step]:
  assumes "\<And>level c mg. level = minlevel mg \<Longrightarrow> P level c mg"
    and "\<And>level c mg. level \<noteq> minlevel mg \<Longrightarrow>
           P (level - 1) c (record_call (FirstDescent level c)
              (level_step_down level c (level_step_entry level c mg))) \<Longrightarrow>
           (minlevel mg + 1 < level \<Longrightarrow> c = w_cycle \<Longrightarrow>
             P (level - 1) c (record_call (SecondDescent level c c) (first_descent level c mg))) \<Longrightarrow>
           (minlevel mg + 1 < level \<Longrightarrow> c = f_cycle \<Longrightarrow>
             P (level - 1) v_cycle
               (record_call (SecondDescent level c v_cycle) (first_descent level c mg))) \<Longrightarrow>
           P level c mg"
  shows "P level c mg"
proof (induct level c mg rule: level_step.induct)
  case (1 level c mg)
  note ih = 1 [OF refl _ refl]
  have m: "minlevel (level_step_entry level c mg) = minlevel mg"
    by simp
  have m': "minlevel (first_descent level c mg) = minlevel mg"
    by simp
  show ?case
  proof (cases "level = minlevel mg")
    case True
    then show ?thesis by (rule assms(1))
  next
    case False
    with m have ne: "level \<noteq> minlevel (level_step_entry level c mg)"
      by simp
    show ?thesis
    proof (rule assms(2) [OF False])
      show "P (level - 1) c (record_call (FirstDescent level c)
              (level_step_down level c (level_step_entry level c mg)))"
        using ih(1) [OF ne] by simp
    next
      assume "minlevel mg + 1 < level" "c = w_cycle"
      then show "P (level - 1) c (record_call (SecondDescent level c c) (first_descent level c mg))"
        using ih(2) [OF ne refl] m' by simp
    next
      assume "minlevel mg + 1 < level" "c = f_cycle"
      then show "P (level - 1) v_cycle
               (record_call (SecondDescent level c v_cycle) (first_descent level c mg))"
        using ih(3) [OF ne refl] m' by simp
    qed
  qed
qed

subsection \<open>The loops of the entry points\<close>

lemma cycle_loop_body_fields [simp]:
  "maxlevel (cycle_loop_body level mg) = maxlevel mg"
  "maxlevel (vcycle_loop_body level mg) = maxlevel mg"
  by (simp_all add: cycle_loop_body_def vcycle_loop_body_def stmt_defs)

lemma cycle_loop_diverges:
  assumes "cycle_loop level mg = Some y"
  shows "maxlevel mg \<noteq> - 1"
proof (rule cycle_loop.raw_induct [where P = "\<lambda>l m r. maxlevel m \<noteq> - 1", OF _ assms])
  fix f and l :: level and m r :: "('a::real_normed_vector, 'c) Multigrid"
  assume ih: "\<And>l' m' r'. f l' m' = Some r' \<Longrightarrow> maxlevel m' \<noteq> - 1"
    and eq: "(if l \<le> maxlevel m then f (l + 1) (cycle_loop_body l m) else Some m) = Some r"
  show "maxlevel m \<noteq> - 1"
  proof
    assume m: "maxlevel m = - 1"
    then have "l \<le> maxlevel m" by simp
    with eq have "f (l + 1) (cycle_loop_body l m) = Some r" by simp
    from ih [OF this] m show False by simp
  qed
qed

lemma vcycle_loop_diverges:
  assumes "vcycle_loop level mg = Some y"
  shows "maxlevel mg \<noteq> - 1"
proof (rule vcycle_loop.raw_induct [where P = "\<lambda>l m r. maxlevel m \<noteq> - 1", OF _ assms])
  fix f and l :: level and m r :: "('a::real_normed_vector, 'c) Multigrid"
  assume ih: "\<And>l' m' r'. f l' m' = Some r' \<Longrightarrow> maxlevel m' \<noteq> - 1"
    and eq: "(if l \<le> maxlevel m then f (l + 1) (vcycle_loop_body l m) else Some m) = Some r"
  show "maxlevel m \<noteq> - 1"
  proof
    assume m: "maxlevel m = - 1"
    then have "l \<le> maxlevel m" by simp
    with eq have "f (l + 1) (vcycle_loop_body l m) = Some r" by simp
    from ih [OF this] m show False by simp
  qed
qed

lemma succ_not_le: "m \<noteq> - 1 \<Longrightarrow> \<not> m + 1 \<le> (m :: level)"
proof -
  assume "m \<noteq> - 1"
  then have "1 + m \<noteq> 0"
    by (metis add.commute add_eq_0_iff)
  then have "unat (1 + m) = Suc (unat m)" by (rule unatSuc)
  then show ?thesis by (simp add: word_le_nat_alt add.commute)
qed

lemma dist_decreases: "level < m \<Longrightarrow> unat (m - (level + 1)) < unat (m - (level :: level))"
proof -
  assume "level < m"
  then have "m - level \<noteq> 0" by auto
  then have "unat (m - level - 1) < unat (m - level)"
    by (simp add: unat_minus_one unat_gt_0)
  then show ?thesis by (simp add: algebra_simps)
qed

lemma cycle_loop_fixed:
  assumes fixed: "\<And>l. cycle_loop_body l mg = mg" and m: "maxlevel mg \<noteq> - 1"
  shows "cycle_loop level mg = Some mg"
proof (induct "unat (maxlevel mg - level)" arbitrary: level rule: less_induct)
  case less
  show ?case
  proof (cases "level \<le> maxlevel mg")
    case False
    then show ?thesis by (subst cycle_loop.simps) simp
  next
    case True
    have "cycle_loop (level + 1) mg = Some mg"
    proof (cases "level = maxlevel mg")
      case True
      with m have "\<not> level + 1 \<le> maxlevel mg" by (simp add: succ_not_le)
      then show ?thesis by (subst cycle_loop.simps) simp
    next
      case False
      with True have "level < maxlevel mg" by simp
      then show ?thesis by (intro less dist_decreases)
    qed
    with True show ?thesis by (subst cycle_loop.simps) (simp add: fixed)
  qed
qed

lemma vcycle_loop_fixed:
  assumes fixed: "\<And>l. vcycle_loop_body l mg = mg" and m: "maxlevel mg \<noteq> - 1"
  shows "vcycle_loop level mg = Some mg"
proof (induct "unat (maxlevel mg - level)" arbitrary: level rule: less_induct)
  case less
  show ?case
  proof (cases "level \<le> maxlevel mg")
    case False
    then show ?thesis by (subst vcycle_loop.simps) simp
  next
    case True
    have "vcycle_loop (level + 1) mg = Some mg"
    proof (cases "level = maxlevel mg")
      case True
      with m have "\<not> level + 1 \<le> maxlevel mg" by (simp add: succ_not_le)
      then show ?thesis by (subst vcycle_loop.simps) simp
    next
      case False
      with True have "level < maxlevel mg" by simp
      then show ?thesis by (intro less dist_decreases)
    qed
    with True show ?thesis by (subst vcycle_loop.simps) (simp add: fixed)
  qed
qed

lemma cycle_loop_body_resize: "cycle_loop_body l (cycle_resize mg) = cycle_resize mg"
  by (simp add: cycle_loop_body_def cycle_resize_def stmt_defs resize_def reinit_vector_def
      fun_upd_idem)

lemma vcycle_loop_body_resize: "vcycle_loop_body l (vcycle_resize mg) = vcycle_resize mg"
  by (simp add: vcycle_loop_body_def vcycle_resize_def stmt_defs resize_def reinit_vector_def
      fun_upd_idem)

lemma cycle_resize_fields [simp]:
  "config_of (cycle_resize mg) = config_of mg"
  "config_of (vcycle_resize mg) = config_of mg"
  "defect (cycle_resize mg) = defect mg"
  "defect (vcycle_resize mg) = defect mg"
  "calls (cycle_resize mg) = calls mg"
  "calls (vcycle_resize mg) = calls mg"
  by (simp_all add: cycle_resize_def vcycle_resize_def config_of_def if_cond_def)

lemmas cycle_resize_config [simp] =
  config_of_fields [OF cycle_resize_fields(1)] config_of_fields [OF cycle_resize_fields(2)]

text \<open>
  \<open>cycle\<close> and \<open>vcycle\<close> return unless \<open>maxlevel\<close> is the largest 32-bit value, and what
  they return is the recursive routine run on the resized level objects.
\<close>

lemma cycle_returns:
  "maxlevel mg \<noteq> - 1 \<Longrightarrow>
   cycle mg = Some (if cycle_type mg = v_cycle then level_v_step (maxlevel mg) (cycle_resize mg)
                    else level_step (maxlevel mg) (cycle_type mg) (cycle_resize mg))"
  by (simp add: cycle_def Let_def cycle_loop_fixed cycle_loop_body_resize)

lemma cycle_not_returns: "maxlevel mg = - 1 \<Longrightarrow> cycle mg = None"
  using cycle_loop_diverges [of "minlevel (cycle_resize mg)" "cycle_resize mg"]
  by (cases "cycle_loop (minlevel (cycle_resize mg)) (cycle_resize mg)")
    (simp_all add: cycle_def Let_def)

lemma vcycle_returns:
  "maxlevel mg \<noteq> - 1 \<Longrightarrow> vcycle mg = Some (level_v_step (maxlevel mg) (vcycle_resize mg))"
  by (simp add: vcycle_def Let_def vcycle_loop_fixed vcycle_loop_body_resize)

lemma vcycle_not_returns: "maxlevel mg = - 1 \<Longrightarrow> vcycle mg = None"
  using vcycle_loop_diverges [of "minlevel (vcycle_resize mg)" "vcycle_resize mg"]
  by (cases "vcycle_loop (minlevel (vcycle_resize mg)) (vcycle_resize mg)")
    (simp_all add: vcycle_def Let_def)

subsection \<open>The defect object\<close>

lemma blocks_defect [simp]:
  "defect (level_step_entry level c mg) = defect mg"
  "defect (level_step_coarse level c mg) = defect mg"
  "defect (level_step_down level c mg) = defect mg"
  "defect (level_step_up level c mg) = defect mg"
  "defect (record_call ev mg) = defect mg"
  by (simp_all add: block_defs stmt_defs split: option.split)

lemma level_step_defect: "defect (level_step level c mg) = defect mg"
  by (induct level c mg rule: level_step_induct)
    (auto simp add: level_step_base level_step_rec)

lemma scalar_v_cycle_state:
  "cycle scalar_scenario = Some (level_v_step 1 (cycle_resize scalar_scenario))"
proof -
  have "maxlevel scalar_scenario \<noteq> - 1" "cycle_type scalar_scenario = v_cycle"
    "maxlevel scalar_scenario = 1"
    by (simp_all add: scalar_scenario_def)
  then show ?thesis
    by (simp add: cycle_returns)
qed

subsection \<open>The instrumentation trace\<close>

lemma blocks_calls [simp]:
  "calls (level_step_entry level c mg) = calls mg"
  "calls (level_step_coarse level c mg) = calls mg @ [CoarseSolve level]"
  "calls (level_step_down level c mg) = calls mg @ [PreSmooth level]"
  "calls (level_step_up level c mg) = calls mg @ [PostSmooth level]"
  "calls (record_call ev mg) = calls mg @ [ev]"
  by (simp_all add: block_defs stmt_defs split: option.split)

lemma v_blocks_calls [simp]:
  "calls (level_v_step_entry level mg) = calls mg"
  "calls (level_v_step_coarse level mg) = calls mg @ [CoarseSolve level]"
  "calls (level_v_step_down level mg) = calls mg @ [PreSmooth level]"
  "calls (level_v_step_up level mg) = calls mg @ [PostSmooth level]"
  by (simp_all add: v_block_defs stmt_defs split: option.split)

lemma blocks_coarse_state [simp]:
  "coarse_state (level_step_entry level c mg) = coarse_state mg"
  "coarse_state (level_step_down level c mg) = coarse_state mg"
  "coarse_state (level_step_up level c mg) = coarse_state mg"
  "coarse_state (level_v_step_entry level mg) = coarse_state mg"
  "coarse_state (level_v_step_down level mg) = coarse_state mg"
  "coarse_state (level_v_step_up level mg) = coarse_state mg"
  "coarse_state (record_call ev mg) = coarse_state mg"
  "coarse_state (cycle_resize mg) = coarse_state mg"
  by (simp_all add: block_defs v_block_defs stmt_defs cycle_resize_def split: option.split)

lemma counted_coarse [simp]:
  "counts_invocations (coarse mg) \<Longrightarrow>
   coarse_state (level_step_coarse level c mg) = Suc (coarse_state mg)"
  "counts_invocations (coarse mg) \<Longrightarrow>
   coarse_state (level_v_step_coarse level mg) = Suc (coarse_state mg)"
  by (simp_all add: block_defs v_block_defs stmt_defs counts_invocations_def)

lemma w_cycle_count:
  "minlevel mg = 0 \<Longrightarrow> counts_invocations (coarse mg) \<Longrightarrow>
   coarse_state (level_step 2 w_cycle mg) = coarse_state mg + 2"
  by (simp add: level_step_rec level_step_base word_cmp)

lemma v_cycle_count:
  "minlevel mg = 0 \<Longrightarrow> counts_invocations (coarse mg) \<Longrightarrow>
   coarse_state (level_v_step 2 mg) = coarse_state mg + 1"
  by (simp add: level_v_step_rec level_v_step_base word_cmp)

lemma w_cycle_trace:
  "minlevel mg = 0 \<Longrightarrow>
   calls (level_step 2 w_cycle mg) = calls mg @
     [PreSmooth 2, FirstDescent 2 w_cycle,
        PreSmooth 1, FirstDescent 1 w_cycle, CoarseSolve 0, PostSmooth 1,
      SecondDescent 2 w_cycle w_cycle,
        PreSmooth 1, FirstDescent 1 w_cycle, CoarseSolve 0, PostSmooth 1,
      PostSmooth 2]"
  by (simp add: level_step_rec level_step_base word_cmp)

lemma v_cycle_trace:
  "minlevel mg = 0 \<Longrightarrow>
   calls (level_v_step 2 mg) = calls mg @
     [PreSmooth 2, VDescent 2, PreSmooth 1, VDescent 1, CoarseSolve 0, PostSmooth 1, PostSmooth 2]"
  by (simp add: level_v_step_rec level_v_step_base word_cmp)



subsection \<open>Diagnostics\<close>

lemma numeric_fields [simp]:
  "cycle_type (numeric mg) = cycle_type mg"
  "minlevel (numeric mg) = minlevel mg"
  "maxlevel (numeric mg) = maxlevel mg"
  "defect (numeric mg) = defect mg"
  "solution (numeric mg) = solution mg"
  "t (numeric mg) = t mg"
  "defect2 (numeric mg) = defect2 mg"
  "matrix (numeric mg) = matrix mg"
  "coarse (numeric mg) = coarse mg"
  "coarse_state (numeric mg) = coarse_state mg"
  "transfer (numeric mg) = transfer mg"
  "pre_smooth (numeric mg) = pre_smooth mg"
  "post_smooth (numeric mg) = post_smooth mg"
  "edge_out (numeric mg) = edge_out mg"
  "edge_in (numeric mg) = edge_in mg"
  "edge_down (numeric mg) = edge_down mg"
  "edge_up (numeric mg) = edge_up mg"
  "calls (numeric mg) = calls mg"
  "debug (numeric mg) = 0"
  "numeric (numeric mg) = numeric mg"
  by (simp_all add: numeric_def)

lemma stores_numeric [simp]: "stores (numeric mg) = stores mg"
  by (simp add: stores_def)

lemma commutesD: "commutes stmt \<Longrightarrow> numeric (stmt mg) = stmt (numeric mg)"
  by (simp add: commutes_def)

lemma commutes_block: "list_all commutes stmts \<Longrightarrow> commutes (block stmts)"
  by (induct stmts) (simp_all add: commutes_def)

lemma commutes_when_debug [simp]: "commutes (when_debug n line)"
  by (simp add: commutes_def when_debug_def numeric_def)

lemma commutes_record_call [simp]: "commutes (record_call ev)"
  by (simp add: commutes_def record_call_def numeric_def)

lemma commutes_assign:
  "(\<And>mg. e (numeric mg) = e mg) \<Longrightarrow> commutes (set_defect i e)"
  "(\<And>mg. e (numeric mg) = e mg) \<Longrightarrow> commutes (set_solution i e)"
  "(\<And>mg. e (numeric mg) = e mg) \<Longrightarrow> commutes (set_t i e)"
  "(\<And>mg. e (numeric mg) = e mg) \<Longrightarrow> commutes (set_defect2 i e)"
  "(\<And>mg. e (numeric mg) = e mg) \<Longrightarrow> commutes (call_coarse i e)"
  by (simp_all add: commutes_def set_defect_def set_solution_def set_t_def set_defect2_def
      call_coarse_def numeric_def)

lemma commutes_if_set:
  "(\<And>mg. slot (numeric mg) = slot mg) \<Longrightarrow> (\<And>e. commutes (body e)) \<Longrightarrow>
   commutes (if_set slot body)"
  by (simp add: commutes_def if_set_def split: option.split)

lemma commutes_if_cond:
  "(\<And>mg. cond (numeric mg) = cond mg) \<Longrightarrow> commutes body \<Longrightarrow>
   commutes (if_cond cond body)"
  by (simp add: commutes_def if_cond_def)

lemmas commutes_intros = commutes_block commutes_assign commutes_if_set commutes_if_cond

lemma commutes_v_blocks:
  "commutes (level_v_step_entry level)"
  "commutes (level_v_step_coarse level)"
  "commutes (level_v_step_down level)"
  "commutes (level_v_step_up level)"
  by (simp_all add: v_block_defs commutes_intros)

lemma commutes_blocks:
  "commutes (level_step_entry level c)"
  "commutes (level_step_coarse level c)"
  "commutes (level_step_down level c)"
  "commutes (level_step_up level c)"
  by (simp_all add: block_defs commutes_intros)

lemmas numeric_blocks [simp] =
  commutes_v_blocks [THEN commutesD] commutes_blocks [THEN commutesD]
  commutes_record_call [THEN commutesD]

lemma numeric_level_v_step: "numeric (level_v_step level mg) = level_v_step level (numeric mg)"
  by (induct level mg rule: level_v_step_induct)
    (simp_all add: level_v_step_base level_v_step_rec)

lemma numeric_level_step: "numeric (level_step level c mg) = level_step level c (numeric mg)"
  by (induct level c mg rule: level_step_induct)
    (auto simp add: level_step_base level_step_rec)

lemma numeric_resize [simp]:
  "numeric (cycle_resize mg) = cycle_resize (numeric mg)"
  "numeric (vcycle_resize mg) = vcycle_resize (numeric mg)"
  by (simp_all add: cycle_resize_def vcycle_resize_def if_cond_def numeric_def)

lemma numeric_set_debug [simp]: "numeric (set_debug d mg) = numeric mg"
  by (simp add: numeric_def set_debug_def)

lemma set_debug_fields [simp]:
  "maxlevel (set_debug d mg) = maxlevel mg"
  "minlevel (set_debug d mg) = minlevel mg"
  "cycle_type (set_debug d mg) = cycle_type mg"
  "matrix (set_debug d mg) = matrix mg"
  by (simp_all add: set_debug_def)

lemma stores_cycle:
  "map_option stores (cycle mg) = map_option stores (cycle (numeric mg))"
proof (cases "maxlevel mg = - 1")
  case True
  then show ?thesis by (simp add: cycle_not_returns)
next
  case False
  have "stores (level_v_step (maxlevel mg) (cycle_resize mg)) =
      stores (level_v_step (maxlevel mg) (cycle_resize (numeric mg)))"
    using stores_numeric [of "level_v_step (maxlevel mg) (cycle_resize mg)"]
    by (simp add: numeric_level_v_step)
  moreover have "stores (level_step (maxlevel mg) c (cycle_resize mg)) =
      stores (level_step (maxlevel mg) c (cycle_resize (numeric mg)))" for c
    using stores_numeric [of "level_step (maxlevel mg) c (cycle_resize mg)"]
    by (simp add: numeric_level_step)
  ultimately show ?thesis
    using False by (simp add: cycle_returns)
qed

lemma stores_vcycle:
  "map_option stores (vcycle mg) = map_option stores (vcycle (numeric mg))"
proof (cases "maxlevel mg = - 1")
  case True
  then show ?thesis by (simp add: vcycle_not_returns)
next
  case False
  have "stores (level_v_step (maxlevel mg) (vcycle_resize mg)) =
      stores (level_v_step (maxlevel mg) (vcycle_resize (numeric mg)))"
    using stores_numeric [of "level_v_step (maxlevel mg) (vcycle_resize mg)"]
    by (simp add: numeric_level_v_step)
  then show ?thesis
    using False by (simp add: vcycle_returns)
qed

lemma stores_reinit:
  "map_prod id stores (reinit b mn mx mg) = map_prod id stores (reinit b mn mx (numeric mg))"
  by (simp add: reinit_def stores_def split: option.split)

subsection \<open>Zero vectors\<close>

lemmas assign_defs = set_defect_def set_solution_def set_t_def set_defect2_def call_coarse_def
  record_call_def if_set_def if_cond_def

lemma objects_put_at [simp]: "objects (put_at obj i V) l = (if l = i then V else objects obj l)"
  by (simp add: put_at_def)

lemma zero_on_put_at [simp]: "zero_on lo hi obj \<Longrightarrow> V = 0 \<Longrightarrow> zero_on lo hi (put_at obj i V)"
  by (simp add: zero_on_def)

lemma zero_onD: "zero_on lo hi obj \<Longrightarrow> lo \<le> l \<Longrightarrow> l \<le> hi \<Longrightarrow> objects obj l = 0"
  by (simp add: zero_on_def)

lemma zero_preserving_config:
  "config_of a = config_of b \<Longrightarrow> zero_preserving a = zero_preserving b"
  by (simp add: zero_preserving_def config_of_def)

lemma record_call_stores [simp]:
  "solution (record_call ev mg) = solution mg"
  "t (record_call ev mg) = t mg"
  "defect2 (record_call ev mg) = defect2 mg"
  by (simp_all add: record_call_def)

lemmas zero_preserving_frame [simp] =
  zero_preserving_config [OF config_of_record_call]
  zero_preserving_config [OF config_of_v_blocks(1)]
  zero_preserving_config [OF config_of_v_blocks(2)]
  zero_preserving_config [OF config_of_v_blocks(3)]
  zero_preserving_config [OF config_of_v_blocks(4)]
  zero_preserving_config [OF config_of_blocks(1)]
  zero_preserving_config [OF config_of_blocks(2)]
  zero_preserving_config [OF config_of_blocks(3)]
  zero_preserving_config [OF config_of_blocks(4)]
  zero_preserving_config [OF config_of_level_v_step]
  zero_preserving_config [OF config_of_level_step]
  zero_preserving_config [OF cycle_resize_fields(1)]
  zero_preserving_config [OF cycle_resize_fields(2)]

lemma below_in_range:
  assumes "lo \<le> level" "level \<noteq> lo" "level \<le> (hi :: level)"
  shows "lo \<le> level - 1" "level - 1 \<le> hi"
proof -
  from assms have "lo < level"
    by simp
  then have less: "unat lo < unat level"
    by (simp only: word_less_nat_alt)
  then have "level \<noteq> 0"
    by auto
  then have m: "unat (level - 1) = unat level - 1"
    by (rule unat_minus_one)
  from less m show "lo \<le> level - 1"
    by (simp add: word_le_nat_alt)
  from m assms(3) show "level - 1 \<le> hi"
    by (simp add: word_le_nat_alt)
qed

lemma v_zero_coarse:
  assumes "zero_preserving mg" "lo \<le> level" "level \<le> hi" "zero_v lo hi mg"
  shows "zero_v lo hi (level_v_step_coarse level (level_v_step_entry level mg))"
  using assms
  by (auto simp add: zero_v_def v_block_defs assign_defs zero_onD zero_preserving_def)

lemma v_zero_down:
  assumes "zero_preserving mg" "lo \<le> level - 1" "lo \<le> level" "level \<le> hi" "level - 1 \<le> hi"
    and "zero_v lo hi mg"
  shows "zero_v lo hi (level_v_step_down level (level_v_step_entry level mg))"
  using assms
  by (auto simp add: zero_v_def v_block_defs assign_defs zero_onD zero_preserving_def
      maps_zero_to_zero_def sadd_def split: option.splits)

lemma v_zero_up:
  assumes "zero_preserving mg" "lo \<le> level - 1" "lo \<le> level" "level \<le> hi" "level - 1 \<le> hi"
    and "zero_v lo hi mg"
  shows "zero_v lo hi (level_v_step_up level mg)"
  using assms
  by (auto simp add: zero_v_def v_block_defs assign_defs zero_onD zero_preserving_def
      maps_zero_to_zero_def sadd_def split: option.splits)

lemma zero_v_record_call [simp]: "zero_v lo hi (record_call ev mg) = zero_v lo hi mg"
  by (simp add: zero_v_def)

lemma level_v_step_zero:
  "zero_preserving mg \<Longrightarrow> minlevel mg \<le> level \<Longrightarrow> level \<le> hi \<Longrightarrow>
   zero_v (minlevel mg) hi mg \<Longrightarrow> zero_v (minlevel mg) hi (level_v_step level mg)"
proof (induct level mg rule: level_v_step_induct)
  case (base level mg)
  then show ?case
    by (simp add: level_v_step_base v_zero_coarse)
next
  case (step level mg)
  note r = below_in_range [OF step(4) step(1) step(5)]
  have "zero_v (minlevel mg) hi (level_v_step_down level (level_v_step_entry level mg))"
    using step(3-6) r by (intro v_zero_down)
  with step(2,3) r
  have "zero_v (minlevel mg) hi (level_v_step (level - 1)
     (record_call (VDescent level) (level_v_step_down level (level_v_step_entry level mg))))"
    by simp
  with step(3-5) r show ?case
    by (simp add: level_v_step_rec [OF step(1)] v_zero_up)
qed

lemma zero_all_record_call [simp]: "zero_all lo hi (record_call ev mg) = zero_all lo hi mg"
  by (simp add: zero_all_def)

lemma zero_entry:
  assumes "zero_preserving mg" "lo \<le> level" "level \<le> hi" "zero_all lo hi mg"
  shows "zero_all lo hi (level_step_entry level c mg)"
  using assms
  by (auto simp add: zero_all_def zero_v_def block_defs assign_defs zero_onD zero_preserving_def
      equ_def)

lemma zero_coarse:
  assumes "zero_preserving mg" "lo \<le> level" "level \<le> hi" "zero_all lo hi mg"
  shows "zero_all lo hi (level_step_coarse level c mg)"
  using assms
  by (auto simp add: zero_all_def zero_v_def block_defs assign_defs zero_onD zero_preserving_def)

lemma zero_down:
  assumes "zero_preserving mg" "lo \<le> level - 1" "lo \<le> level" "level \<le> hi" "level - 1 \<le> hi"
    and "zero_all lo hi mg"
  shows "zero_all lo hi (level_step_down level c mg)"
  using assms
  by (auto simp add: zero_all_def zero_v_def block_defs assign_defs zero_onD zero_preserving_def
      maps_zero_to_zero_def split: option.splits)

lemma zero_up:
  assumes "zero_preserving mg" "lo \<le> level - 1" "lo \<le> level" "level \<le> hi" "level - 1 \<le> hi"
    and "zero_all lo hi mg"
  shows "zero_all lo hi (level_step_up level c mg)"
  using assms
  by (auto simp add: zero_all_def zero_v_def block_defs assign_defs zero_onD zero_preserving_def
      maps_zero_to_zero_def sadd_def split: option.splits)

lemma level_step_zero:
  "zero_preserving mg \<Longrightarrow> minlevel mg \<le> level \<Longrightarrow> level \<le> hi \<Longrightarrow>
   zero_all (minlevel mg) hi mg \<Longrightarrow> zero_all (minlevel mg) hi (level_step level c mg)"
proof (induct level c mg rule: level_step_induct)
  case (base level c mg)
  then show ?case
    by (simp add: level_step_base zero_coarse zero_entry)
next
  case (step level c mg)
  note r = below_in_range [OF step(6) step(1) step(7)]
  have "zero_all (minlevel mg) hi (level_step_down level c (level_step_entry level c mg))"
    using step(5-8) r by (intro zero_down zero_entry) simp_all
  with step(2,5) r
  have first: "zero_all (minlevel mg) hi (first_descent level c mg)"
    by simp
  have "zero_all (minlevel mg) hi
     (if minlevel mg + 1 < level then
          (if c = w_cycle
             then level_step (level - 1) c
                    (record_call (SecondDescent level c c) (first_descent level c mg))
           else if c = f_cycle
             then level_step (level - 1) v_cycle
                    (record_call (SecondDescent level c v_cycle) (first_descent level c mg))
           else first_descent level c mg)
        else first_descent level c mg)"
    using step(3,4,5) r first by auto
  with step(5-7) r show ?case
    by (simp add: level_step_rec [OF step(1)] zero_up)
qed

lemma zero_on_resize [simp]: "zero_on lo hi (resize a b obj)"
  by (simp add: zero_on_def resize_def)

lemma zero_on_empty: "\<not> lo \<le> hi \<Longrightarrow> zero_on lo hi obj"
  by (auto simp add: zero_on_def)

lemma cycle_zero:
  assumes zp: "zero_preserving mg" and d: "zero_on (minlevel mg) (maxlevel mg) (defect mg)"
    and m: "maxlevel mg \<noteq> - 1"
  shows "\<exists>mg'. cycle mg = Some mg' \<and> zero_on (minlevel mg) (maxlevel mg) (solution mg')"
proof (cases "minlevel mg \<le> maxlevel mg")
  case False
  with m show ?thesis
    by (simp add: cycle_returns zero_on_empty)
next
  case True
  have v: "zero_v (minlevel mg) (maxlevel mg) (cycle_resize mg)"
    using d by (simp add: zero_v_def) (simp add: cycle_resize_def if_cond_def)
  have a: "zero_all (minlevel mg) (maxlevel mg) (cycle_resize mg)" if "cycle_type mg \<noteq> v_cycle"
    using v that by (simp add: zero_all_def) (simp add: cycle_resize_def if_cond_def)
  have "zero_v (minlevel mg) (maxlevel mg) (level_v_step (maxlevel mg) (cycle_resize mg))"
    using level_v_step_zero [of "cycle_resize mg" "maxlevel mg" "maxlevel mg"] zp True v
    by simp
  moreover have "zero_all (minlevel mg) (maxlevel mg)
      (level_step (maxlevel mg) (cycle_type mg) (cycle_resize mg))"
    if "cycle_type mg \<noteq> v_cycle"
    using level_step_zero [of "cycle_resize mg" "maxlevel mg" "maxlevel mg" "cycle_type mg"]
      zp True a [OF that]
    by simp
  ultimately show ?thesis
    using m by (simp add: cycle_returns zero_all_def zero_v_def)
qed

subsection \<open>Evaluating the scenarios\<close>

lemmas scalar_defs = scalar_scenario_def scalar_prepared_def scalar_matrix_def
  scalar_transfer_def resize_def

lemmas run_defs = v_block_defs block_defs stmt_defs when_debug_def sadd_def equ_def

lemma edge_scenario_cycle:
  "cycle edge_scenario = Some (level_step 1 w_cycle (cycle_resize edge_scenario))"
proof -
  have "maxlevel edge_scenario \<noteq> - 1" "cycle_type edge_scenario = w_cycle"
    "maxlevel edge_scenario = 1"
    by (simp_all add: edge_scenario_def set_edge_flux_matrices_def set_edge_matrices_def
        set_cycle_def scalar_scenario_def)
  then show ?thesis
    by (simp add: cycle_returns)
qed

subsection \<open>The transpose edge terms of the general routine\<close>

lemma edge_in_blocks:
  assumes "debug mg = 0"
  shows
  "level_step_entry level c (mg\<lparr>edge_in := x\<rparr>) = (level_step_entry level c mg)\<lparr>edge_in := x\<rparr>"
  "level_step_coarse level c (mg\<lparr>edge_in := x\<rparr>) = (level_step_coarse level c mg)\<lparr>edge_in := x\<rparr>"
  "level_step_down level c (mg\<lparr>edge_in := x\<rparr>) = (level_step_down level c mg)\<lparr>edge_in := x\<rparr>"
  using assms by (simp_all add: block_defs stmt_defs when_debug_def split: option.split)

lemma edge_in_record_call:
  "record_call ev (mg\<lparr>edge_in := x\<rparr>) = (record_call ev mg)\<lparr>edge_in := x\<rparr>"
  by (simp add: record_call_def)

lemma edge_in_up:
  "edge_up mg = Some eu \<Longrightarrow> debug mg = 0 \<Longrightarrow>
   level_step_up level c (mg\<lparr>edge_in := x\<rparr>) = (level_step_up level c mg)\<lparr>edge_in := x\<rparr>"
  by (cases x; cases "edge_in mg") (simp_all add: level_step_up_def stmt_defs when_debug_def)

lemma edge_in_overwritten_quiet:
  "edge_up mg = Some eu \<Longrightarrow> debug mg = 0 \<Longrightarrow>
   level_step level c (mg\<lparr>edge_in := x\<rparr>) = (level_step level c mg)\<lparr>edge_in := x\<rparr>"
proof (induct level c mg rule: level_step_induct)
  case (base level c mg)
  then show ?case
    by (simp add: level_step_base edge_in_blocks)
next
  case (step level c mg)
  have ne: "level \<noteq> minlevel (mg\<lparr>edge_in := x\<rparr>)"
    using step(1) by simp
  have m: "minlevel (mg\<lparr>edge_in := x\<rparr>) = minlevel mg"
    by simp
  have first: "first_descent level c (mg\<lparr>edge_in := x\<rparr>) = (first_descent level c mg)\<lparr>edge_in := x\<rparr>"
    using step(2,5,6) by (simp add: edge_in_blocks edge_in_record_call)
  have up: "edge_up (first_descent level c mg) = Some eu" "debug (first_descent level c mg) = 0"
    using step(5,6) by simp_all
  consider (w) "minlevel mg + 1 < level" "c = w_cycle"
    | (f) "minlevel mg + 1 < level" "c = f_cycle"
    | (none) "\<not> (minlevel mg + 1 < level \<and> (c = w_cycle \<or> c = f_cycle))"
    by blast
  then show ?case
  proof cases
    case w
    have "level_step (level - 1) c
        (record_call (SecondDescent level c c) (first_descent level c (mg\<lparr>edge_in := x\<rparr>))) =
      (level_step (level - 1) c
        (record_call (SecondDescent level c c) (first_descent level c mg)))\<lparr>edge_in := x\<rparr>"
      using step(3) [OF w] up by (simp add: first edge_in_record_call)
    moreover have "edge_up (level_step (level - 1) c
        (record_call (SecondDescent level c c) (first_descent level c mg))) = Some eu"
      "debug (level_step (level - 1) c
        (record_call (SecondDescent level c c) (first_descent level c mg))) = 0"
      using step(5,6) by simp_all
    ultimately show ?thesis
      using w by (simp add: level_step_rec [OF ne] level_step_rec [OF step(1)] m edge_in_up)
  next
    case f
    have "level_step (level - 1) v_cycle
        (record_call (SecondDescent level c v_cycle) (first_descent level c (mg\<lparr>edge_in := x\<rparr>))) =
      (level_step (level - 1) v_cycle
        (record_call (SecondDescent level c v_cycle) (first_descent level c mg)))\<lparr>edge_in := x\<rparr>"
      using step(4) [OF f] up by (simp add: first edge_in_record_call)
    moreover have "edge_up (level_step (level - 1) v_cycle
        (record_call (SecondDescent level c v_cycle) (first_descent level c mg))) = Some eu"
      "debug (level_step (level - 1) v_cycle
        (record_call (SecondDescent level c v_cycle) (first_descent level c mg))) = 0"
      using step(5,6) by simp_all
    ultimately show ?thesis
      using f by (simp add: level_step_rec [OF ne] level_step_rec [OF step(1)] m edge_in_up)
  next
    case none
    then have "level_step level c (mg\<lparr>edge_in := x\<rparr>) =
        level_step_up level c (first_descent level c (mg\<lparr>edge_in := x\<rparr>))"
      and "level_step level c mg = level_step_up level c (first_descent level c mg)"
      by (auto simp add: level_step_rec [OF ne] level_step_rec [OF step(1)] m)
    with up show ?thesis
      by (simp add: first edge_in_up)
  qed
qed

lemma numeric_edge_in: "numeric (mg\<lparr>edge_in := x\<rparr>) = (numeric mg)\<lparr>edge_in := x\<rparr>"
  by (simp add: numeric_def)

lemma edge_in_ignored:
  assumes "edge_up mg = Some eu"
  shows "stores (level_step level c (mg\<lparr>edge_in := x\<rparr>)) = stores (level_step level c mg)"
proof -
  have "stores (level_step level c (mg\<lparr>edge_in := x\<rparr>)) =
      stores (numeric (level_step level c (mg\<lparr>edge_in := x\<rparr>)))"
    by simp
  also have "\<dots> = stores ((level_step level c (numeric mg))\<lparr>edge_in := x\<rparr>)"
    using assms by (simp add: numeric_level_step numeric_edge_in edge_in_overwritten_quiet)
  also have "\<dots> = stores (numeric (level_step level c mg))"
    by (simp add: numeric_level_step) (simp add: stores_def)
  finally show ?thesis
    by simp
qed

section \<open>Properties\<close>

text \<open>
  C1. In the two-level scalar scenario, \<^verbatim>\<open>cycle()\<close> with cycle type V returns, and in the
  state it returns \<open>solution[0] = 4\<close> and \<open>solution[1] = 4\<close>.
\<close>

theorem scalar_v_cycle:
  "\<exists>mg'. cycle scalar_scenario = Some mg' \<and> solution_at mg' 0 = 4 \<and> solution_at mg' 1 = 4"
proof -
  have "maxlevel scalar_scenario \<noteq> - 1" "cycle_type scalar_scenario = v_cycle"
    "maxlevel scalar_scenario = 1"
    by (simp_all add: scalar_scenario_def)
  then have "cycle scalar_scenario = Some (level_v_step 1 (cycle_resize scalar_scenario))"
    by (simp add: cycle_returns)
  moreover have "solution_at (level_v_step 1 (cycle_resize scalar_scenario)) 0 = 4"
    "solution_at (level_v_step 1 (cycle_resize scalar_scenario)) 1 = 4"
    by (simp_all add: level_v_step_rec level_v_step_base cycle_resize_def scalar_scenario_def
        if_cond_def resize_def v_block_defs stmt_defs when_debug_def sadd_def scalar_matrix_def
        scalar_transfer_def)
  ultimately show ?thesis by simp
qed

text \<open>
  C2 does not hold as stated. In the scalar scenario, with no edge operator set, the
  V-cycle routine ends with \<open>solution[0] = solution[1] = 4\<close> and the general routine called
  with cycle type V ends with \<open>solution[0] = solution[1] = 0\<close>: the general routine
  restricts \<open>A solution[level]\<close> into \<open>defect2[level - 1]\<close> and solves the coarse level for
  \<open>defect[level - 1] - defect2[level - 1]\<close>, where the V-cycle routine restricts the
  residual \<open>defect[level] - A solution[level]\<close> into \<open>defect[level - 1]\<close>.
\<close>

theorem v_cycle_differs_from_general_routine:
  "edge_out scalar_prepared = None \<and> edge_in scalar_prepared = None \<and>
   edge_down scalar_prepared = None \<and> edge_up scalar_prepared = None \<and>
   maxlevel scalar_prepared = 1 \<and>
   solution_at (level_v_step 1 scalar_prepared) 0 = 4 \<and>
   solution_at (level_v_step 1 scalar_prepared) 1 = 4 \<and>
   solution_at (level_step 1 v_cycle scalar_prepared) 0 = 0 \<and>
   solution_at (level_step 1 v_cycle scalar_prepared) 1 = 0"
proof -
  have "solution_at (level_v_step 1 scalar_prepared) 0 = 4"
    "solution_at (level_v_step 1 scalar_prepared) 1 = 4"
    by (simp_all add: level_v_step_rec level_v_step_base scalar_defs run_defs)
  moreover have "solution_at (level_step 1 v_cycle scalar_prepared) 0 = 0"
    "solution_at (level_step 1 v_cycle scalar_prepared) 1 = 0"
    by (simp_all add: level_step_rec level_step_base scalar_defs run_defs word_cmp)
  ultimately show ?thesis
    by (simp add: scalar_defs)
qed

text \<open>
  C2, amended. On the coarsest level (a hierarchy of one level, \<open>maxlevel = minlevel\<close>) and
  with \<open>defect2\<close> zero there, the two routines leave identical solution objects, for every
  choice of collaborators, defect object and edge operators.
\<close>

theorem one_level_routines_agree:
  "level = minlevel mg \<and> defect2_at mg level = 0 \<longrightarrow>
     solution (level_v_step level mg) = solution (level_step level v_cycle mg)"
  by (auto simp add: level_v_step_base level_step_base v_block_defs block_defs assign_defs
      equ_def)

theorem one_level_routines_agree_witness:
  "solution (level_v_step 0 scalar_prepared) = solution (level_step 0 v_cycle scalar_prepared)"
  using one_level_routines_agree [of 0 scalar_prepared]
  by (simp add: scalar_defs)

text \<open>
  C3. On the three-level hierarchy \<open>minlevel = 0\<close>, \<open>maxlevel = 2\<close>, one \<^verbatim>\<open>cycle()\<close> call
  returns having invoked the coarse solver exactly twice with cycle type W and exactly once
  with cycle type V: a coarse solver that counts its invocations, whatever it computes, is
  left with a count \<open>2\<close>, respectively \<open>1\<close>, above the count it had before the call.
\<close>

theorem coarse_solve_counts:
  "minlevel mg = 0 \<and> maxlevel mg = 2 \<and> counts_invocations (coarse mg) \<longrightarrow>
     (cycle_type mg = w_cycle \<longrightarrow>
        (\<exists>mg'. cycle mg = Some mg' \<and> coarse_state mg' = coarse_state mg + 2)) \<and>
     (cycle_type mg = v_cycle \<longrightarrow>
        (\<exists>mg'. cycle mg = Some mg' \<and> coarse_state mg' = coarse_state mg + 1))"
proof -
  have "(2::level) \<noteq> - 1" by simp
  then show ?thesis
    by (simp add: cycle_returns w_cycle_count v_cycle_count)
qed

theorem coarse_solve_counts_witness:
  "(\<exists>mg'. cycle (set_cycle w_cycle three_level_scenario) = Some mg' \<and> coarse_state mg' = 2) \<and>
   (\<exists>mg'. cycle three_level_scenario = Some mg' \<and> coarse_state mg' = 1)"
proof -
  let ?w = "set_cycle w_cycle three_level_scenario"
  let ?v = "three_level_scenario"
  have w: "minlevel ?w = 0" "maxlevel ?w = 2" "cycle_type ?w = w_cycle" "coarse_state ?w = 0"
      "counts_invocations (coarse ?w)"
    and v: "minlevel ?v = 0" "maxlevel ?v = 2" "cycle_type ?v = v_cycle" "coarse_state ?v = 0"
      "counts_invocations (coarse ?v)"
    by (simp_all add: three_level_scenario_def scalar_scenario_def set_cycle_def
        counts_invocations_def)
  from coarse_solve_counts [of ?w] w
  have "\<exists>mg'. cycle ?w = Some mg' \<and> coarse_state mg' = 2"
    by (simp add: numeral_2_eq_2)
  moreover from coarse_solve_counts [of ?v] v
  have "\<exists>mg'. cycle ?v = Some mg' \<and> coarse_state mg' = 1"
    by simp
  ultimately show ?thesis ..
qed



text \<open>
  C5. For every level range and every cycle type: if every \<open>defect[level]\<close> of the range is
  zero and the collaborators map zero to zero, then every \<open>solution[level]\<close> of the range is
  zero after \<^verbatim>\<open>cycle()\<close>; and \<^verbatim>\<open>cycle()\<close> does return, unless \<open>maxlevel\<close> is the largest
  32-bit value.
\<close>

theorem zero_defect_zero_solution:
  "zero_preserving mg \<and> zero_on (minlevel mg) (maxlevel mg) (defect mg) \<longrightarrow>
     (maxlevel mg \<noteq> - 1 \<longrightarrow> (\<exists>mg'. cycle mg = Some mg')) \<and>
     (\<forall>mg'. cycle mg = Some mg' \<longrightarrow> zero_on (minlevel mg) (maxlevel mg) (solution mg'))"
proof (intro impI conjI allI, goal_cases)
  case 1
  then show ?case
    using cycle_zero [of mg] by auto
next
  case (2 mg')
  then have "maxlevel mg \<noteq> - 1"
    using cycle_not_returns [of mg] by auto
  with 2 show ?case
    using cycle_zero [of mg] by auto
qed

theorem zero_defect_zero_solution_witness:
  "\<exists>mg'. cycle (scalar_scenario\<lparr>cycle_type := w_cycle, defect := resize 0 1 (defect scalar_scenario)\<rparr>)
       = Some mg' \<and> solution_at mg' 0 = 0 \<and> solution_at mg' 1 = 0"
proof -
  let ?mg = "scalar_scenario\<lparr>cycle_type := w_cycle, defect := resize 0 1 (defect scalar_scenario)\<rparr>"
  have f: "minlevel ?mg = 0" "maxlevel ?mg = 1"
    by (simp_all add: scalar_scenario_def)
  have "zero_preserving ?mg"
    by (simp add: zero_preserving_def maps_zero_to_zero_def scalar_scenario_def
        scalar_matrix_def scalar_transfer_def)
  moreover have "zero_on (minlevel ?mg) (maxlevel ?mg) (defect ?mg)"
    by simp
  moreover have "maxlevel ?mg \<noteq> - 1"
    by (simp add: scalar_scenario_def)
  ultimately obtain mg' where "cycle ?mg = Some mg'" "zero_on 0 1 (solution mg')"
    using zero_defect_zero_solution [of ?mg] unfolding f by blast
  moreover have "(0::level) \<le> 1"
    by simp
  ultimately have "cycle ?mg = Some mg' \<and> solution_at mg' 0 = 0 \<and> solution_at mg' 1 = 0"
    by (simp add: zero_onD [of 0 1])
  then show ?thesis ..
qed

text \<open>
  C6 does not hold as stated: the V-cycle routine accumulates the restricted residual
  into \<open>defect[level - 1]\<close>. In the scalar scenario \<open>defect[0]\<close> is \<open>0\<close> before
  \<^verbatim>\<open>cycle()\<close> and \<open>4\<close> after it.
\<close>

theorem v_cycle_writes_defect:
  "cycle scalar_scenario = Some (level_v_step 1 (cycle_resize scalar_scenario)) \<and>
   defect_at scalar_scenario 0 = 0 \<and>
   defect_at (level_v_step 1 (cycle_resize scalar_scenario)) 0 = 4"
proof -
  have "defect_at (level_v_step 1 (cycle_resize scalar_scenario)) 0 = 4"
    by (simp add: level_v_step_rec level_v_step_base cycle_resize_def scalar_scenario_def
        if_cond_def resize_def v_block_defs stmt_defs when_debug_def sadd_def scalar_matrix_def
        scalar_transfer_def)
  moreover have "defect_at scalar_scenario 0 = 0"
    by (simp add: scalar_scenario_def)
  ultimately show ?thesis
    using scalar_v_cycle_state by simp
qed

text \<open>
  C6, amended. The general routine \<^verbatim>\<open>level_step\<close> leaves the defect object as it is, so
  \<^verbatim>\<open>cycle()\<close> with cycle type W or F returns (\<open>maxlevel\<close> not being the largest 32-bit
  value) with every \<open>defect[level]\<close> unchanged: its bookkeeping uses \<open>defect2\<close>.
\<close>

theorem general_routine_keeps_defect:
  "defect (level_step level c mg) = defect mg \<and>
   (cycle_type mg \<noteq> v_cycle \<and> maxlevel mg \<noteq> - 1 \<longrightarrow>
      (\<exists>mg'. cycle mg = Some mg' \<and> defect mg' = defect mg))"
  by (simp add: level_step_defect cycle_returns)

theorem general_routine_keeps_defect_witness:
  "\<exists>mg'. cycle (set_cycle w_cycle scalar_scenario) = Some mg' \<and>
     defect mg' = defect (set_cycle w_cycle scalar_scenario)"
  using general_routine_keeps_defect [of 1 w_cycle "set_cycle w_cycle scalar_scenario"]
  by (simp add: set_cycle_def scalar_scenario_def)

text \<open>
  C7 does not hold as stated: in a release build the assertions of \<^verbatim>\<open>reinit\<close> are
  compiled out, so a call that violates a bound raises nothing and sets the range. On the
  scalar scenario \<^verbatim>\<open>reinit(1, 0)\<close> returns with \<open>minlevel = 1\<close> and \<open>maxlevel = 0\<close>.
\<close>

theorem reinit_release_build_unchecked:
  "\<not> (1::level) \<le> 0 \<and>
   minlevel scalar_scenario = 0 \<and> maxlevel scalar_scenario = 1 \<and>
   fst (reinit False 1 0 scalar_scenario) = None \<and>
   minlevel (snd (reinit False 1 0 scalar_scenario)) = 1 \<and>
   maxlevel (snd (reinit False 1 0 scalar_scenario)) = 0"
  by (simp add: reinit_def Assert_def scalar_scenario_def)

text \<open>
  C7, amended. \<^verbatim>\<open>reinit(min, max)\<close>: when \<open>min\<close> is at least the coarsest level of the
  operator collection, \<open>max\<close> at most its finest level and \<open>min \<le> max\<close>, the call raises
  nothing, in either build, and afterwards \<open>minlevel = min\<close>, \<open>maxlevel = max\<close>, so
  \<open>minlevel \<le> maxlevel\<close>, and the range of the defect object is \<open>[minlevel, maxlevel]\<close>.
  When one of the three bounds is violated, a debug build raises \<^verbatim>\<open>ExcLowerRangeType\<close>
  and the object is as it was: \<open>minlevel\<close>, \<open>maxlevel\<close> and the defect object are unchanged;
  a release build makes no check, raises nothing, sets \<open>minlevel = min\<close> and
  \<open>maxlevel = max\<close> and resizes the defect object with these bounds all the same.
\<close>

theorem reinit_range:
  "(get_minlevel (matrix mg) \<le> mn \<and> mx \<le> get_maxlevel (matrix mg) \<and> mn \<le> mx \<longrightarrow>
      (\<exists>mg'. reinit b mn mx mg = (None, mg') \<and> minlevel mg' = mn \<and> maxlevel mg' = mx \<and>
         minlevel mg' \<le> maxlevel mg' \<and>
         min_level (defect mg') = minlevel mg' \<and> max_level (defect mg') = maxlevel mg')) \<and>
   (\<not> (get_minlevel (matrix mg) \<le> mn \<and> mx \<le> get_maxlevel (matrix mg) \<and> mn \<le> mx) \<longrightarrow>
      (\<exists>a c. reinit True mn mx mg = (Some (ExcLowerRangeType a c), mg)) \<and>
      (\<exists>mg'. reinit False mn mx mg = (None, mg') \<and> minlevel mg' = mn \<and> maxlevel mg' = mx \<and>
         defect mg' = resize mn mx (defect mg)))"
  by (simp add: reinit_def Assert_def resize_def)

theorem reinit_range_witness:
  "(\<exists>mg'. reinit True 0 1 scalar_scenario = (None, mg') \<and> minlevel mg' = 0 \<and> maxlevel mg' = 1 \<and>
         minlevel mg' \<le> maxlevel mg' \<and>
         min_level (defect mg') = minlevel mg' \<and> max_level (defect mg') = maxlevel mg') \<and>
   (\<exists>a c. reinit True 1 0 scalar_scenario = (Some (ExcLowerRangeType a c), scalar_scenario)) \<and>
   (\<exists>a c. reinit True 0 2 scalar_scenario = (Some (ExcLowerRangeType a c), scalar_scenario)) \<and>
   (\<exists>mg'. reinit False 0 2 scalar_scenario = (None, mg') \<and> minlevel mg' = 0 \<and> maxlevel mg' = 2)"
proof -
  have m: "get_minlevel (matrix scalar_scenario) = 0" "get_maxlevel (matrix scalar_scenario) = 1"
    by (simp_all add: scalar_scenario_def scalar_matrix_def)
  have c: "(0::level) \<le> 0" "(0::level) \<le> 1" "(1::level) \<le> 1" "\<not> (1::level) \<le> 0"
    "\<not> (2::level) \<le> 1"
    by (simp_all add: word_cmp)
  note in_range = reinit_range [of scalar_scenario 0 1 True, unfolded m]
    and crossed = reinit_range [of scalar_scenario 1 0 True, unfolded m]
    and above = reinit_range [of scalar_scenario 0 2 True, unfolded m]
  from in_range c
  have "\<exists>mg'. reinit True 0 1 scalar_scenario = (None, mg') \<and> minlevel mg' = 0 \<and>
      maxlevel mg' = 1 \<and> minlevel mg' \<le> maxlevel mg' \<and>
      min_level (defect mg') = minlevel mg' \<and> max_level (defect mg') = maxlevel mg'"
    by blast
  moreover from crossed c
  have "\<exists>a c. reinit True 1 0 scalar_scenario = (Some (ExcLowerRangeType a c), scalar_scenario)"
    by blast
  moreover from above c
  have "\<exists>a c. reinit True 0 2 scalar_scenario = (Some (ExcLowerRangeType a c), scalar_scenario)"
    and "\<exists>mg'. reinit False 0 2 scalar_scenario = (None, mg') \<and> minlevel mg' = 0 \<and>
      maxlevel mg' = 2"
    by blast+
  ultimately show ?thesis by blast
qed

text \<open>
  C8. In \<^verbatim>\<open>level_step\<close> above \<open>minlevel\<close>, with \<open>edge_in\<close> and \<open>edge_up\<close> both set, the
  recombined \<open>t[level]\<close> should hold both transpose applications, and neither application
  writes the defect object. The second half holds (\<open>level_step_defect\<close>). The first fails:
  \<^verbatim>\<open>edge_in->Tvmult\<close> and \<^verbatim>\<open>edge_up->Tvmult\<close> both overwrite \<open>t[level]\<close>, so only the second
  application is left when \<open>t[level]\<close> is recombined, where the V-cycle routine subtracts
  each application from the defect as soon as it is computed. In \<open>edge_scenario\<close> the
  recombined \<open>t[1]\<close> is \<open>4004\<close>, which is \<open>defect[1] - defect2[1] - edge_up\<^sup>T solution[0]\<close>;
  with both applications it would be \<open>4364\<close>. In general (\<open>edge_in_ignored\<close>), once
  \<open>edge_up\<close> is set the four level objects that \<^verbatim>\<open>level_step\<close> leaves do not depend on
  \<open>edge_in\<close> at all.
\<close>

theorem edge_in_contribution_lost:
  "edge_in edge_scenario = Some (scalar_edge 10) \<and>
   edge_up edge_scenario = Some (scalar_edge 100) \<and>
   cycle edge_scenario = Some (level_step 1 w_cycle (cycle_resize edge_scenario)) \<and>
   solution_at (level_step 1 w_cycle (cycle_resize edge_scenario)) 1 = - 36 \<and>
   solution_at (level_step 1 w_cycle (cycle_resize edge_scenario)) 0 = - 40 \<and>
   defect_at (level_step 1 w_cycle (cycle_resize edge_scenario)) 1 = 4 \<and>
   defect2_at (level_step 1 w_cycle (cycle_resize edge_scenario)) 1 = 0 \<and>
   t_at (level_step 1 w_cycle (cycle_resize edge_scenario)) 1 = 4004 \<and>
   4 - 0 - Tvmult (scalar_edge 100) 1 (- 40) = (4004 :: real) \<and>
   4 - 0 - (Tvmult (scalar_edge 10) 1 (- 36) + Tvmult (scalar_edge 100) 1 (- 40)) = (4364 :: real)"
proof -
  have "solution_at (level_step 1 w_cycle (cycle_resize edge_scenario)) 1 = - 36"
    "solution_at (level_step 1 w_cycle (cycle_resize edge_scenario)) 0 = - 40"
    "defect_at (level_step 1 w_cycle (cycle_resize edge_scenario)) 1 = 4"
    "defect2_at (level_step 1 w_cycle (cycle_resize edge_scenario)) 1 = 0"
    "t_at (level_step 1 w_cycle (cycle_resize edge_scenario)) 1 = 4004"
    by (simp_all add: level_step_rec level_step_base edge_scenario_def
        set_edge_flux_matrices_def set_edge_matrices_def set_cycle_def cycle_resize_def
        scalar_edge_def scalar_defs run_defs word_cmp)
  then show ?thesis
    using edge_scenario_cycle
    by (simp add: edge_scenario_def set_edge_flux_matrices_def set_edge_matrices_def
        scalar_edge_def)
qed

text \<open>
  C9. The verbosity has no effect on numerical results: for any two settings \<open>d1\<close> and
  \<open>d2\<close>, \<^verbatim>\<open>cycle()\<close> and \<^verbatim>\<open>vcycle()\<close> started from the same object either both fail to
  return or return the same solution, defect, t and defect2 objects; \<^verbatim>\<open>reinit\<close>,
  \<^verbatim>\<open>set_maxlevel\<close> and \<^verbatim>\<open>set_minlevel\<close> raise the same exception, if any, and leave the
  same four objects, in a debug build and in a release build; and so do the other setters.
\<close>

theorem debug_has_no_effect:
  "map_option stores (cycle (set_debug d1 mg)) = map_option stores (cycle (set_debug d2 mg)) \<and>
   map_option stores (vcycle (set_debug d1 mg)) = map_option stores (vcycle (set_debug d2 mg)) \<and>
   map_prod id stores (reinit b mn mx (set_debug d1 mg)) =
     map_prod id stores (reinit b mn mx (set_debug d2 mg)) \<and>
   map_prod id stores (set_maxlevel b l (set_debug d1 mg)) =
     map_prod id stores (set_maxlevel b l (set_debug d2 mg)) \<and>
   map_prod id stores (set_minlevel b l relative (set_debug d1 mg)) =
     map_prod id stores (set_minlevel b l relative (set_debug d2 mg)) \<and>
   stores (set_cycle c (set_debug d1 mg)) = stores (set_cycle c (set_debug d2 mg)) \<and>
   stores (set_edge_matrices down up (set_debug d1 mg)) =
     stores (set_edge_matrices down up (set_debug d2 mg)) \<and>
   stores (set_edge_flux_matrices down up (set_debug d1 mg)) =
     stores (set_edge_flux_matrices down up (set_debug d2 mg))"
proof -
  have "map_option stores (cycle (set_debug d mg)) = map_option stores (cycle (numeric mg))"
    and "map_option stores (vcycle (set_debug d mg)) = map_option stores (vcycle (numeric mg))"
    and "map_prod id stores (reinit b m n (set_debug d mg)) =
      map_prod id stores (reinit b m n (numeric mg))" for d m n
    using stores_cycle [of "set_debug d mg"] stores_vcycle [of "set_debug d mg"]
      stores_reinit [of b m n "set_debug d mg"]
    by simp_all
  moreover have "stores (set_cycle c (set_debug d mg)) = stores mg"
    and "stores (set_edge_matrices down up (set_debug d mg)) = stores mg"
    and "stores (set_edge_flux_matrices down up (set_debug d mg)) = stores mg" for d
    by (simp_all add: stores_def set_cycle_def set_edge_matrices_def set_edge_flux_matrices_def
        set_debug_def)
  ultimately show ?thesis
    by (simp add: set_maxlevel_def set_minlevel_def new_minlevel_def)
qed

theorem debug_has_no_effect_witness:
  "map_option stores (cycle (set_debug 3 scalar_scenario)) =
     map_option stores (cycle (set_debug 0 scalar_scenario))"
  using debug_has_no_effect [of 3 scalar_scenario 0] by blast

text \<open>
  C10 does not hold as stated: in a release build \<^verbatim>\<open>reinit\<close> makes no range check, so for
  \<open>l > maxlevel\<close> the call does not fail. On the scalar scenario, where \<open>maxlevel = 1\<close>,
  \<^verbatim>\<open>set_minlevel(3, true)\<close> returns with \<open>minlevel = 4294967294\<close>.
\<close>

theorem set_minlevel_release_build_wraps:
  "maxlevel scalar_scenario = 1 \<and>
   fst (set_minlevel False 3 True scalar_scenario) = None \<and>
   uint (minlevel (snd (set_minlevel False 3 True scalar_scenario))) = 4294967294 \<and>
   maxlevel (snd (set_minlevel False 3 True scalar_scenario)) = 1"
  by (simp add: set_minlevel_def new_minlevel_def reinit_def Assert_def scalar_scenario_def)

text \<open>
  C10, amended. In either build \<^verbatim>\<open>set_minlevel(l, true)\<close> passes \<open>maxlevel - l\<close>, computed
  in unsigned 32-bit arithmetic, to \<^verbatim>\<open>reinit\<close>: the value is \<open>(maxlevel - l) mod 2^32\<close>,
  which is \<open>maxlevel - l\<close> exactly when \<open>l \<le> maxlevel\<close> and the wrapped value
  \<open>maxlevel - l + 2^32\<close> when \<open>l > maxlevel\<close>. In that case a debug build fails in the
  range check of \<^verbatim>\<open>reinit\<close>, with \<^verbatim>\<open>ExcLowerRangeType\<close> and no other error, and leaves
  the object as it was; a release build raises nothing and stores the wrapped value, which
  is above \<open>maxlevel\<close>, as \<open>minlevel\<close>.
\<close>

theorem set_minlevel_relative:
  "set_minlevel b l True mg = reinit b (new_minlevel l True mg) (maxlevel mg) mg \<and>
   uint (new_minlevel l True mg) = (uint (maxlevel mg) - uint l) mod 2 ^ 32 \<and>
   (l \<le> maxlevel mg \<longrightarrow> uint (new_minlevel l True mg) = uint (maxlevel mg) - uint l) \<and>
   (maxlevel mg < l \<longrightarrow>
      uint (new_minlevel l True mg) = uint (maxlevel mg) - uint l + 2 ^ 32 \<and>
      (\<exists>a c. set_minlevel True l True mg = (Some (ExcLowerRangeType a c), mg)) \<and>
      (\<exists>mg'. set_minlevel False l True mg = (None, mg') \<and>
         minlevel mg' = new_minlevel l True mg \<and> maxlevel mg' = maxlevel mg \<and>
         maxlevel mg' < minlevel mg'))"
proof -
  have n: "new_minlevel l True mg = maxlevel mg - l"
    by (simp add: new_minlevel_def)
  have a: "uint (maxlevel mg - l) = uint (maxlevel mg) - uint l" if "l \<le> maxlevel mg"
    using that by (simp add: uint_sub_if' word_le_def)
  have b: "uint (maxlevel mg - l) = uint (maxlevel mg) - uint l + 2 ^ 32" if "maxlevel mg < l"
    using that by (simp add: uint_sub_if' word_less_def)
  have d: "uint (maxlevel mg - l) = (uint (maxlevel mg) - uint l) mod 2 ^ 32"
    by (simp add: uint_word_ariths)
  have "uint l < 2 ^ 32"
    using uint_lt2p [of l] by simp
  then have c: "\<not> maxlevel mg - l \<le> maxlevel mg" if "maxlevel mg < l"
    using b [OF that] by (simp add: word_le_def)
  have e: "\<exists>a c. set_minlevel True l True mg = (Some (ExcLowerRangeType a c), mg)"
    if "maxlevel mg < l"
    using c [OF that] by (simp add: set_minlevel_def n reinit_def Assert_def)
  have r: "\<exists>mg'. set_minlevel False l True mg = (None, mg') \<and>
         minlevel mg' = maxlevel mg - l \<and> maxlevel mg' = maxlevel mg \<and>
         maxlevel mg' < minlevel mg'"
    if "maxlevel mg < l"
    using c [OF that] by (simp add: set_minlevel_def n reinit_def Assert_def)
  have f: "set_minlevel b l True mg = reinit b (new_minlevel l True mg) (maxlevel mg) mg"
    by (simp add: set_minlevel_def)
  from a b d e r f show ?thesis
    unfolding n by blast
qed

theorem set_minlevel_relative_witness:
  "uint (new_minlevel 1 True scalar_scenario) = 0 \<and>
   uint (new_minlevel 3 True scalar_scenario) = 4294967294 \<and>
   (\<exists>a c. set_minlevel True 3 True scalar_scenario =
      (Some (ExcLowerRangeType a c), scalar_scenario)) \<and>
   (\<exists>mg'. set_minlevel False 3 True scalar_scenario = (None, mg') \<and>
      maxlevel mg' < minlevel mg')"
proof -
  have m: "maxlevel scalar_scenario = 1"
    by (simp add: scalar_scenario_def)
  have le: "(1::level) \<le> 1" and less: "(1::level) < 3"
    by (simp_all add: word_cmp)
  note w1 = set_minlevel_relative [of True 1 scalar_scenario, unfolded m]
    and w3 = set_minlevel_relative [of True 3 scalar_scenario, unfolded m]
  from w1 le have "uint (new_minlevel 1 True scalar_scenario) = uint (1::level) - uint (1::level)"
    by blast
  moreover from w3 less
  have "uint (new_minlevel 3 True scalar_scenario) = uint (1::level) - uint (3::level) + 2 ^ 32"
    and "\<exists>a c. set_minlevel True 3 True scalar_scenario =
      (Some (ExcLowerRangeType a c), scalar_scenario)"
    and "\<exists>mg'. set_minlevel False 3 True scalar_scenario = (None, mg') \<and>
      maxlevel mg' < minlevel mg'"
    by blast+
  ultimately show ?thesis by simp
qed

end
